theory Spec2Isabelle
  imports Main "HOL-Library.Word" "HOL-Library.Sublist"
begin

section \<open>Data model (server/models.go: the structs)\<close>

text \<open>
  Go strings are byte sequences and are modelled as \<open>string\<close>. \<open>time.Time\<close> is an
  instant, modelled as a natural number of clock ticks. \<open>uint\<close> and \<open>uint64\<close> are
  64-bit words, \<open>uint32\<close> and \<open>uint16\<close> words of their width; \<open>float32\<close> is kept
  as its 32-bit pattern (no handler computes with it). A pointer field that may be nil is an
  \<open>option\<close>. Record fields carry the name of their struct as a prefix, since Go field
  names repeat across structs.
\<close>

type_synonym Time = nat

record User =
  User_ID :: string
  User_Email :: string
  User_Dept :: string
  User_RiskScore :: "int option"
  User_CreatedAt :: Time
  User_UpdatedAt :: Time

record OS =
  OS_Family :: string
  OS_Version :: string
  OS_Arch :: string

record EventData =
  EventData_Type :: string
  EventData_ID :: string
  EventData_Category :: string

record ProcessInfo =
  ProcessInfo_Name :: string
  ProcessInfo_Cmd :: "string list"
  ProcessInfo_PPID :: "32 word"
  ProcessInfo_PID :: "32 word"
  ProcessInfo_Hash :: "string option"
  ProcessInfo_User :: "string option"
  ProcessInfo_CPUUsage :: "32 word"
  ProcessInfo_MemoryUsage :: "64 word"

record NetworkInfo =
  NetworkInfo_SrcIP :: "string option"
  NetworkInfo_DstIP :: string
  NetworkInfo_DstPort :: "16 word"
  NetworkInfo_Protocol :: string
  NetworkInfo_BytesIn :: "64 word"
  NetworkInfo_BytesOut :: "64 word"
  NetworkInfo_Domain :: "string option"

record FileInfo =
  FileInfo_Path :: string
  FileInfo_Operation :: string
  FileInfo_Size :: "64 word option"
  FileInfo_Hash :: "string option"
  FileInfo_User :: "string option"

record Agent =
  Agent_Version :: string
  Agent_Mode :: string
  Agent_Hostname :: string

record Event =
  Event_ID :: "64 word"
  Event_Timestamp :: Time
  Event_TenantID :: string
  Event_HostID :: string
  Event_User :: User
  Event_OS :: OS
  Event_Event :: EventData
  Event_Process :: "ProcessInfo option"
  Event_Network :: "NetworkInfo option"
  Event_File :: "FileInfo option"
  Event_Labels :: "string list"
  Event_RiskHints :: "string list"
  Event_Agent :: Agent
  Event_SessionID :: string
  Event_CreatedAt :: Time
  Event_UpdatedAt :: Time

text \<open>
  \<open>Alert.Entities\<close> is a Go map from string keys; the only values the server stores in
  it are strings, so it is a map from strings to strings.
\<close>

record Alert =
  Alert_ID :: "64 word"
  Alert_CreatedAt :: Time
  Alert_Severity :: string
  Alert_Title :: string
  Alert_Description :: string
  Alert_TenantID :: string
  Alert_RuleID :: string
  Alert_RuleVersion :: string
  Alert_UEBAScore :: int
  Alert_Entities :: "string \<rightharpoonup> string"
  Alert_Evidence :: "string list"
  Alert_Status :: string
  Alert_Assignee :: "string option"
  Alert_ResolvedAt :: "Time option"

section \<open>The logger (logrus)\<close>

datatype Level = ErrorLevel | InfoLevel

datatype LogValue = ErrorValue | UintValue "64 word" | IntValue int

text \<open>
  One log entry: level, message and the fields attached with \<open>WithError\<close> (key
  \<open>error\<close>) or \<open>WithField\<close>.
\<close>

datatype Entry = Entry Level string "(string \<times> LogValue) list"

section \<open>The store behind \<open>gorm.DB\<close>\<close>

text \<open>
  Modelled from the spec: the ORM and the database behind \<open>h.db\<close> are an external
  collaborator, not part of the repository. The spec (sections 1 and 4.2) takes a transactional
  relational store whose batch insert is a single atomic operation. The store is two tables and
  a schedule of outcomes: every call to the store consumes the next scheduled outcome, \<open>True\<close>
  meaning that the call fails (the connection is lost, a constraint is violated) and leaves
  the tables as they were. An empty schedule means that the call succeeds. Primary keys are
  assigned by auto-increment; the server never deletes a row.
\<close>

record DB =
  DB_events :: "Event list"
  DB_alerts :: "Alert list"
  DB_faults :: "bool list"

definition next_fault :: "DB \<Rightarrow> bool" where
  "next_fault d = (case DB_faults d of [] \<Rightarrow> False | b # _ \<Rightarrow> b)"

definition consume_fault :: "DB \<Rightarrow> DB" where
  "consume_fault d = d\<lparr>DB_faults := tl (DB_faults d)\<rparr>"

fun assign_event_ids :: "nat \<Rightarrow> Event list \<Rightarrow> Event list" where
  "assign_event_ids n [] = []"
| "assign_event_ids n (e # es) = e\<lparr>Event_ID := of_nat (Suc n)\<rparr> # assign_event_ids (Suc n) es"

text \<open>
  \<open>db.CreateInBatch(&events, batchSize)\<close>: returns the rows as written (with their
  primary keys), whether the call failed, and the store afterwards.
\<close>

definition CreateInBatch :: "Event list \<Rightarrow> nat \<Rightarrow> DB \<Rightarrow> Event list \<times> bool \<times> DB" where
  "CreateInBatch events batchSize d =
     (if next_fault d then (events, True, consume_fault d)
      else
        (let rows = assign_event_ids (length (DB_events d)) events
         in (rows, False, (consume_fault d)\<lparr>DB_events := DB_events d @ rows\<rparr>)))"

text \<open>\<open>db.Create(&alert)\<close>.\<close>

definition Create :: "Alert \<Rightarrow> DB \<Rightarrow> Alert \<times> bool \<times> DB" where
  "Create alert d =
     (if next_fault d then (alert, True, consume_fault d)
      else
        (let row = alert\<lparr>Alert_ID := of_nat (Suc (length (DB_alerts d)))\<rparr>
         in (row, False, (consume_fault d)\<lparr>DB_alerts := DB_alerts d @ [row]\<rparr>)))"

text \<open>
  A query built with \<open>Where\<close>, \<open>Offset\<close>, \<open>Limit\<close> and \<open>Order\<close>: the conditions are
  conjoined, a negative offset skips nothing and a negative limit does not limit.
\<close>

definition paginate :: "int \<Rightarrow> int \<Rightarrow> 'a list \<Rightarrow> 'a list" where
  "paginate offset limit rows =
     (let skipped = drop (nat offset) rows
      in if limit < 0 then skipped else take (nat limit) skipped)"

definition Find_events ::
  "(Event \<Rightarrow> bool) list \<Rightarrow> int \<Rightarrow> int \<Rightarrow> DB \<Rightarrow> Event list \<times> bool \<times> DB" where
  "Find_events conds offset limit d =
     (if next_fault d then ([], True, consume_fault d)
      else (paginate offset limit (filter (\<lambda>e. list_all (\<lambda>p. p e) conds) (DB_events d)),
            False, consume_fault d))"

text \<open>\<open>Order("created_at DESC")\<close> sorts before the page is cut.\<close>

definition Find_alerts ::
  "(Alert \<Rightarrow> bool) list \<Rightarrow> int \<Rightarrow> int \<Rightarrow> DB \<Rightarrow> Alert list \<times> bool \<times> DB" where
  "Find_alerts conds offset limit d =
     (if next_fault d then ([], True, consume_fault d)
      else (paginate offset limit
              (rev (sort_key Alert_CreatedAt
                 (filter (\<lambda>a. list_all (\<lambda>p. p a) conds) (DB_alerts d)))),
            False, consume_fault d))"

section \<open>The handler state\<close>

record EventHandler =
  db :: DB
  logger :: "Entry list"

section \<open>Detection (server/models.go: createAlert, processEventsForAlerts)\<close>

text \<open>\<open>strings.HasPrefix\<close> and \<open>strings.Contains\<close> on byte strings.\<close>

fun HasPrefix :: "string \<Rightarrow> string \<Rightarrow> bool" where
  "HasPrefix s [] = True"
| "HasPrefix [] (p # ps) = False"
| "HasPrefix (c # s) (p # ps) = (c = p \<and> HasPrefix s ps)"

fun Contains :: "string \<Rightarrow> string \<Rightarrow> bool" where
  "Contains [] substr = (substr = [])"
| "Contains (c # s) substr = (HasPrefix (c # s) substr \<or> Contains s substr)"

text \<open>
  The struct literal that \<open>createAlert\<close> builds. \<open>now\<close> is the reading of
  \<open>time.Now()\<close>: the clock is a parameter of every function that reads it, and one call
  of a handler or of a detection pass takes one reading.
\<close>

definition newAlert :: "Time \<Rightarrow> Event \<Rightarrow> string \<Rightarrow> string \<Rightarrow> Alert" where
  "newAlert now event title severity =
     \<lparr> Alert_ID = 0,
       Alert_CreatedAt = now,
       Alert_Severity = severity,
       Alert_Title = title,
       Alert_Description = [],
       Alert_TenantID = Event_TenantID event,
       Alert_RuleID = ''RULE_AUTO'',
       Alert_RuleVersion = ''1.0'',
       Alert_UEBAScore = 75,
       Alert_Entities = [''user'' \<mapsto> User_ID (Event_User event), ''host'' \<mapsto> Event_HostID event],
       Alert_Evidence = [EventData_ID (Event_Event event)],
       Alert_Status = ''open'',
       Alert_Assignee = None,
       Alert_ResolvedAt = None \<rparr>"

definition createAlert :: "Time \<Rightarrow> Event \<Rightarrow> string \<Rightarrow> string \<Rightarrow> EventHandler \<Rightarrow> EventHandler" where
  "createAlert now event title severity h =
     (case Create (newAlert now event title severity) (db h) of
        (alert, err, d) \<Rightarrow>
          if err
          then h\<lparr>db := d,
                 logger := logger h @ [Entry ErrorLevel ''Failed to create alert'' [(''error'', ErrorValue)]]\<rparr>
          else h\<lparr>db := d,
                 logger := logger h @
                   [Entry InfoLevel ''Created alert'' [(''alert_id'', UintValue (Alert_ID alert))]]\<rparr>)"

definition suspiciousCmds :: "string list" where
  "suspiciousCmds = [''netcat'', ''ncat'', ''wget'', ''curl'', ''scp'', ''rclone'']"

text \<open>
  The inner loop over the vocabulary for one argv token: the first entry the token contains
  creates an alert and \<open>break\<close> leaves this loop (and only this loop).
\<close>

fun scan_suspicious :: "Time \<Rightarrow> Event \<Rightarrow> string \<Rightarrow> string list \<Rightarrow> EventHandler \<Rightarrow> EventHandler" where
  "scan_suspicious now event cmd [] h = h"
| "scan_suspicious now event cmd (suspicious # rest) h =
     (if Contains cmd suspicious
      then createAlert now event ''Suspicious data transfer tool detected'' ''high'' h
      else scan_suspicious now event cmd rest h)"

text \<open>The loop over \<open>event.Process.Cmd\<close>.\<close>

fun scan_cmds :: "Time \<Rightarrow> Event \<Rightarrow> string list \<Rightarrow> EventHandler \<Rightarrow> EventHandler" where
  "scan_cmds now event [] h = h"
| "scan_cmds now event (cmd # cmds) h =
     scan_cmds now event cmds (scan_suspicious now event cmd suspiciousCmds h)"

text \<open>The body of the loop over the batch: both checks, in the order of the source.\<close>

definition process_event :: "Time \<Rightarrow> Event \<Rightarrow> EventHandler \<Rightarrow> EventHandler" where
  "process_event now event h =
     (let h1 = (case Event_Process event of
                  None \<Rightarrow> h
                | Some p \<Rightarrow> scan_cmds now event (ProcessInfo_Cmd p) h)
      in case Event_File event of
           None \<Rightarrow> h1
         | Some f \<Rightarrow>
             (case FileInfo_Size f of
                None \<Rightarrow> h1
              | Some sz \<Rightarrow>
                  if 100 * 1024 * 1024 < sz
                  then createAlert now event ''Large file operation detected'' ''medium'' h1
                  else h1))"

fun processEventsForAlerts :: "Time \<Rightarrow> Event list \<Rightarrow> EventHandler \<Rightarrow> EventHandler" where
  "processEventsForAlerts now [] h = h"
| "processEventsForAlerts now (event # events) h =
     processEventsForAlerts now events (process_event now event h)"

text \<open>
  What a pass asks the store to insert, stated apart from the loops: the rule matches of one
  event as (title, severity) in the order the loop body finds them, the insert requests of a
  batch, and the run of \<open>createAlert\<close> over a list of requests. The loops above are
  proved equal to this run.
\<close>

definition suspicious_token :: "string \<Rightarrow> bool" where
  "suspicious_token cmd = list_ex (Contains cmd) suspiciousCmds"

definition large_file :: "Event \<Rightarrow> bool" where
  "large_file event =
     (case Event_File event of
        None \<Rightarrow> False
      | Some f \<Rightarrow> (case FileInfo_Size f of None \<Rightarrow> False | Some sz \<Rightarrow> 100 * 1024 * 1024 < sz))"

definition matches :: "Event \<Rightarrow> (string \<times> string) list" where
  "matches event =
     (case Event_Process event of
        None \<Rightarrow> []
      | Some p \<Rightarrow> map (\<lambda>_. (''Suspicious data transfer tool detected'', ''high''))
                   (filter suspicious_token (ProcessInfo_Cmd p)))
     @ (if large_file event then [(''Large file operation detected'', ''medium'')] else [])"

definition requests :: "Event list \<Rightarrow> (Event \<times> string \<times> string) list" where
  "requests events = concat (map (\<lambda>e. map (\<lambda>(t, s). (e, t, s)) (matches e)) events)"

fun createAlerts :: "Time \<Rightarrow> (Event \<times> string \<times> string) list \<Rightarrow> EventHandler \<Rightarrow> EventHandler" where
  "createAlerts now [] h = h"
| "createAlerts now ((event, title, severity) # rs) h =
     createAlerts now rs (createAlert now event title severity h)"

text \<open>
  Observations on two handler states, before and after: the alert rows and the log entries
  added in between. \<open>outcomes n d\<close> is what the schedule of the store \<open>d\<close> holds for its
  next \<open>n\<close> calls, \<open>accepted outs rs\<close> the requests among \<open>rs\<close> whose outcome in
  \<open>outs\<close> is not a failure, and \<open>without_id\<close> a row less its primary key.
\<close>

definition alerts_created :: "EventHandler \<Rightarrow> EventHandler \<Rightarrow> Alert list" where
  "alerts_created h h' = drop (length (DB_alerts (db h))) (DB_alerts (db h'))"

definition logged :: "EventHandler \<Rightarrow> EventHandler \<Rightarrow> Entry list" where
  "logged h h' = drop (length (logger h)) (logger h')"

definition outcomes :: "nat \<Rightarrow> DB \<Rightarrow> bool list" where
  "outcomes n d = take n (DB_faults d) @ replicate (n - length (DB_faults d)) False"

definition accepted :: "bool list \<Rightarrow> 'a list \<Rightarrow> 'a list" where
  "accepted outs rs = map snd (filter (\<lambda>(failed, r). \<not> failed) (zip outs rs))"

definition without_id :: "Alert \<Rightarrow> Alert" where
  "without_id a = a\<lparr>Alert_ID := 0\<rparr>"

definition level_message :: "Entry \<Rightarrow> Level \<times> string" where
  "level_message x = (case x of Entry l m fs \<Rightarrow> (l, m))"

definition accepts_writes :: "DB \<Rightarrow> bool" where
  "accepts_writes d = (\<not> list_ex (\<lambda>b. b) (DB_faults d))"

section \<open>The request context (gin.Context)\<close>

text \<open>
  The web framework is external. A context holds the request (headers, query parameters,
  body), the keys set with \<open>c.Set\<close>, whether \<open>c.Abort\<close> was called, and the response
  written with \<open>c.JSON\<close>. A \<open>gin.H\<close> response body is one of the shapes the handlers
  write.
\<close>

datatype Body =
    ErrorBody string
  | IngestBody string nat
  | EventsBody "Event list" int int
  | AlertsBody "Alert list" int int
  | EmptyListBody string

record Response =
  Response_Status :: nat
  Response_Body :: Body

record Context =
  Request_Header :: "(string \<times> string) list"
  Request_Query :: "(string \<times> string) list"
  Request_Body :: string
  Keys :: "string \<rightharpoonup> string"
  Aborted :: bool
  Writer :: "Response option"

text \<open>
  \<open>c.GetHeader\<close>, \<open>c.Query\<close> and \<open>c.DefaultQuery\<close> return the first value of a key;
  header names are kept in their canonical spelling. For an absent key, \<open>GetHeader\<close> and
  \<open>Query\<close> return the empty string and \<open>DefaultQuery\<close> returns the default.
\<close>

definition GetHeader :: "Context \<Rightarrow> string \<Rightarrow> string" where
  "GetHeader c key = (case map_of (Request_Header c) key of None \<Rightarrow> [] | Some v \<Rightarrow> v)"

definition Query :: "Context \<Rightarrow> string \<Rightarrow> string" where
  "Query c key = (case map_of (Request_Query c) key of None \<Rightarrow> [] | Some v \<Rightarrow> v)"

definition DefaultQuery :: "Context \<Rightarrow> string \<Rightarrow> string \<Rightarrow> string" where
  "DefaultQuery c key defaultValue =
     (case map_of (Request_Query c) key of None \<Rightarrow> defaultValue | Some v \<Rightarrow> v)"

definition JSON :: "nat \<Rightarrow> Body \<Rightarrow> Context \<Rightarrow> Context" where
  "JSON code obj c = c\<lparr>Writer := Some \<lparr>Response_Status = code, Response_Body = obj\<rparr>\<rparr>"

definition Abort :: "Context \<Rightarrow> Context" where
  "Abort c = c\<lparr>Aborted := True\<rparr>"

definition Set_key :: "string \<Rightarrow> string \<Rightarrow> Context \<Rightarrow> Context" where
  "Set_key key v c = c\<lparr>Keys := (Keys c)(key \<mapsto> v)\<rparr>"

text \<open>
  A middleware followed by a handler: \<open>c.Next()\<close> runs the handler, \<open>c.Abort()\<close>
  keeps it from running.
\<close>

definition use :: "(Context \<Rightarrow> Context) \<Rightarrow> ('h \<Rightarrow> Context \<Rightarrow> 'h \<times> Context) \<Rightarrow>
    'h \<Rightarrow> Context \<Rightarrow> 'h \<times> Context" where
  "use middleware handler h c =
     (let c' = middleware c in if Aborted c' then (h, c') else handler h c')"

section \<open>Middleware (server/middleware.go)\<close>

record Claims =
  Claims_UserID :: string
  Claims_TenantID :: string
  Claims_Role :: string

text \<open>
  \<open>jwt.ParseWithClaims\<close> is the token library: it is a parameter of the middleware, taking
  the token string and the key and returning either an error or the token with its validity
  flag and claims.
\<close>

datatype JwtError = ErrTokenMalformed | ErrTokenSignatureInvalid | ErrTokenExpired

datatype ParseResult = ParseError JwtError | Token bool Claims

definition TrimPrefix :: "string \<Rightarrow> string \<Rightarrow> string" where
  "TrimPrefix s p = (if HasPrefix s p then drop (length p) s else s)"

definition AuthMiddleware :: "(string \<Rightarrow> string \<Rightarrow> ParseResult) \<Rightarrow> string \<Rightarrow> Context \<Rightarrow> Context" where
  "AuthMiddleware ParseWithClaims jwtSecret c =
     (let authHeader = GetHeader c ''Authorization'' in
      if authHeader = []
      then Abort (JSON 401 (ErrorBody ''Authorization header required'') c)
      else
        let tokenString = TrimPrefix authHeader ''Bearer '' in
        if tokenString = authHeader
        then Abort (JSON 401 (ErrorBody ''Bearer token required'') c)
        else
          (case ParseWithClaims tokenString jwtSecret of
             ParseError e \<Rightarrow> Abort (JSON 401 (ErrorBody ''Invalid token'') c)
           | Token valid claims \<Rightarrow>
               if \<not> valid
               then Abort (JSON 401 (ErrorBody ''Invalid token'') c)
               else Set_key ''role'' (Claims_Role claims)
                      (Set_key ''tenant_id'' (Claims_TenantID claims)
                         (Set_key ''user_id'' (Claims_UserID claims) c))))"

definition TenantMiddleware :: "Context \<Rightarrow> Context" where
  "TenantMiddleware c =
     (case Keys c ''tenant_id'' of
        None \<Rightarrow> Abort (JSON 400 (ErrorBody ''Tenant ID required'') c)
      | Some tenantID \<Rightarrow> Set_key ''tenant_context'' tenantID c)"

section \<open>Handlers (server/models.go: IngestEvents, GetEvents, GetAlerts)\<close>

text \<open>
  \<open>c.ShouldBindJSON(&events)\<close> is the framework's decoder: a parameter that maps the body
  to an error message or to the decoded batch.
\<close>

definition IngestEvents :: "(string \<Rightarrow> string + Event list) \<Rightarrow> Time \<Rightarrow> EventHandler \<Rightarrow> Context \<Rightarrow>
    EventHandler \<times> Context \<times> Event list option" where
  "IngestEvents ShouldBindJSON now h c =
     (case ShouldBindJSON (Request_Body c) of
        Inl err \<Rightarrow>
          (h\<lparr>logger := logger h @
                [Entry ErrorLevel ''Failed to bind events JSON'' [(''error'', ErrorValue)]]\<rparr>,
           JSON 400 (ErrorBody ''Invalid JSON format'') c,
           None)
      | Inr events \<Rightarrow>
          (let events1 = map (\<lambda>e. e\<lparr>Event_ID := 0, Event_CreatedAt := now, Event_UpdatedAt := now\<rparr>)
                           events
           in case CreateInBatch events1 100 (db h) of
                (rows, err, d) \<Rightarrow>
                  if err
                  then (h\<lparr>db := d,
                          logger := logger h @
                            [Entry ErrorLevel ''Failed to insert events'' [(''error'', ErrorValue)]]\<rparr>,
                        JSON 500 (ErrorBody ''Failed to process events'') c,
                        None)
                  else (h\<lparr>db := d,
                          logger := logger h @
                            [Entry InfoLevel ''Successfully ingested events''
                               [(''count'', IntValue (int (length rows)))]]\<rparr>,
                        JSON 200 (IngestBody ''ok'' (length rows)) c,
                        Some rows)))"

text \<open>
  The third component of the result of \<open>IngestEvents\<close> is the batch handed to
  \<open>go h.processEventsForAlerts(events)\<close>; the pass runs later, on the handler state of
  that moment.
\<close>

definition run_detection :: "Time \<Rightarrow> Event list option \<Rightarrow> EventHandler \<Rightarrow> EventHandler" where
  "run_detection now scheduled h =
     (case scheduled of None \<Rightarrow> h | Some events \<Rightarrow> processEventsForAlerts now events h)"

text \<open>
  \<open>strconv.Atoi\<close> on a 64-bit platform: an optional sign and decimal digits; a syntax
  error yields 0 and a value out of range the nearest bound, both with an error. The second
  component tells whether there was an error.
\<close>

definition is_digit :: "char \<Rightarrow> bool" where
  "is_digit ch = (48 \<le> (of_char ch :: nat) \<and> (of_char ch :: nat) \<le> 57)"

fun digits_value :: "nat \<Rightarrow> string \<Rightarrow> nat" where
  "digits_value acc [] = acc"
| "digits_value acc (ch # rest) = digits_value (acc * 10 + (of_char ch - 48)) rest"

definition Atoi :: "string \<Rightarrow> int \<times> bool" where
  "Atoi s =
     (let (neg, ds) =
            (case s of
               [] \<Rightarrow> (False, [])
             | ch # rest \<Rightarrow>
                 if ch = CHR ''-'' then (True, rest)
                 else if ch = CHR ''+'' then (False, rest)
                 else (False, s))
      in if ds = [] \<or> \<not> list_all is_digit ds then (0, True)
         else
           (let n = int (digits_value 0 ds); v = (if neg then - n else n)
            in if 2 ^ 63 - 1 < v then (2 ^ 63 - 1, True)
               else if v < - (2 ^ 63) then (- (2 ^ 63), True)
               else (v, False)))"

text \<open>Arithmetic on Go's \<open>int\<close> wraps around at 64 bits.\<close>

definition go_int :: "int \<Rightarrow> int" where
  "go_int x = sint (word_of_int x :: 64 word)"

text \<open>\<open>time.Parse(time.RFC3339, s)\<close> is a parameter of the query handler.\<close>

definition GetEvents :: "(string \<Rightarrow> Time option) \<Rightarrow> EventHandler \<Rightarrow> Context \<Rightarrow> EventHandler \<times> Context" where
  "GetEvents parseRFC3339 h c =
     (let tenantID = Query c ''tenant_id'';
          hostID = Query c ''host_id'';
          eventType = Query c ''event_type'';
          startTime = Query c ''start_time'';
          endTime = Query c ''end_time'';
          query =
            (if tenantID \<noteq> [] then [\<lambda>e. Event_TenantID e = tenantID] else [])
            @ (if hostID \<noteq> [] then [\<lambda>e. Event_HostID e = hostID] else [])
            @ (if eventType \<noteq> [] then [\<lambda>e. EventData_Type (Event_Event e) = eventType] else [])
            @ (if startTime \<noteq> []
               then (case parseRFC3339 startTime of
                       None \<Rightarrow> [] | Some t \<Rightarrow> [\<lambda>e. t \<le> Event_Timestamp e])
               else [])
            @ (if endTime \<noteq> []
               then (case parseRFC3339 endTime of
                       None \<Rightarrow> [] | Some t \<Rightarrow> [\<lambda>e. Event_Timestamp e \<le> t])
               else []);
          page = fst (Atoi (DefaultQuery c ''page'' ''1''));
          limit = fst (Atoi (DefaultQuery c ''limit'' ''50''));
          offset = go_int ((page - 1) * limit)
      in case Find_events query offset limit (db h) of
           (events, err, d) \<Rightarrow>
             if err
             then (h\<lparr>db := d,
                     logger := logger h @
                       [Entry ErrorLevel ''Failed to query events'' [(''error'', ErrorValue)]]\<rparr>,
                   JSON 500 (ErrorBody ''Failed to query events'') c)
             else (h\<lparr>db := d\<rparr>, JSON 200 (EventsBody events page limit) c))"

definition GetAlerts :: "EventHandler \<Rightarrow> Context \<Rightarrow> EventHandler \<times> Context" where
  "GetAlerts h c =
     (let tenantID = Query c ''tenant_id'';
          status = Query c ''status'';
          severity = Query c ''severity'';
          query =
            (if tenantID \<noteq> [] then [\<lambda>a. Alert_TenantID a = tenantID] else [])
            @ (if status \<noteq> [] then [\<lambda>a. Alert_Status a = status] else [])
            @ (if severity \<noteq> [] then [\<lambda>a. Alert_Severity a = severity] else []);
          page = fst (Atoi (DefaultQuery c ''page'' ''1''));
          limit = fst (Atoi (DefaultQuery c ''limit'' ''50''));
          offset = go_int ((page - 1) * limit)
      in case Find_alerts query offset limit (db h) of
           (alerts, err, d) \<Rightarrow>
             if err
             then (h\<lparr>db := d,
                     logger := logger h @
                       [Entry ErrorLevel ''Failed to query alerts'' [(''error'', ErrorValue)]]\<rparr>,
                   JSON 500 (ErrorBody ''Failed to query alerts'') c)
             else (h\<lparr>db := d\<rparr>, JSON 200 (AlertsBody alerts page limit) c))"

section \<open>The stand-alone server (server/main.go)\<close>

text \<open>
  \<open>main.go\<close> registers its own handlers, which use neither the store nor the middleware:
  the POST handler decodes the batch and prints each event with \<open>log.Printf\<close>, the GET
  handlers answer with an empty list. The process log is the list of events printed.
\<close>

definition main_post_events :: "(string \<Rightarrow> string + 'e list) \<Rightarrow> 'e list \<Rightarrow> Context \<Rightarrow> 'e list \<times> Context" where
  "main_post_events ShouldBindJSON printed c =
     (case ShouldBindJSON (Request_Body c) of
        Inl err \<Rightarrow> (printed, JSON 400 (ErrorBody err) c)
      | Inr events \<Rightarrow> (printed @ events, JSON 200 (IngestBody ''ok'' (length events)) c))"

definition main_get_events :: "Context \<Rightarrow> Context" where
  "main_get_events c = JSON 200 (EmptyListBody ''events'') c"

definition main_get_alerts :: "Context \<Rightarrow> Context" where
  "main_get_alerts c = JSON 200 (EmptyListBody ''alerts'') c"

section \<open>Zero values\<close>

text \<open>Go's zero values of the structs and of a fresh request context, used to write inputs.\<close>

definition zero_Event :: Event where
  "zero_Event =
     \<lparr> Event_ID = 0, Event_Timestamp = 0, Event_TenantID = [], Event_HostID = [],
       Event_User = \<lparr> User_ID = [], User_Email = [], User_Dept = [], User_RiskScore = None,
                      User_CreatedAt = 0, User_UpdatedAt = 0 \<rparr>,
       Event_OS = \<lparr> OS_Family = [], OS_Version = [], OS_Arch = [] \<rparr>,
       Event_Event = \<lparr> EventData_Type = [], EventData_ID = [], EventData_Category = [] \<rparr>,
       Event_Process = None, Event_Network = None, Event_File = None,
       Event_Labels = [], Event_RiskHints = [],
       Event_Agent = \<lparr> Agent_Version = [], Agent_Mode = [], Agent_Hostname = [] \<rparr>,
       Event_SessionID = [], Event_CreatedAt = 0, Event_UpdatedAt = 0 \<rparr>"

definition zero_ProcessInfo :: ProcessInfo where
  "zero_ProcessInfo =
     \<lparr> ProcessInfo_Name = [], ProcessInfo_Cmd = [], ProcessInfo_PPID = 0, ProcessInfo_PID = 0,
       ProcessInfo_Hash = None, ProcessInfo_User = None, ProcessInfo_CPUUsage = 0,
       ProcessInfo_MemoryUsage = 0 \<rparr>"

definition zero_FileInfo :: FileInfo where
  "zero_FileInfo =
     \<lparr> FileInfo_Path = [], FileInfo_Operation = [], FileInfo_Size = None, FileInfo_Hash = None,
       FileInfo_User = None \<rparr>"

definition empty_DB :: DB where
  "empty_DB = \<lparr> DB_events = [], DB_alerts = [], DB_faults = [] \<rparr>"

definition new_handler :: "DB \<Rightarrow> EventHandler" where
  "new_handler d = \<lparr> db = d, logger = [] \<rparr>"

definition request :: "(string \<times> string) list \<Rightarrow> (string \<times> string) list \<Rightarrow> string \<Rightarrow> Context" where
  "request headers query body =
     \<lparr> Request_Header = headers, Request_Query = query, Request_Body = body,
       Keys = Map.empty, Aborted = False, Writer = None \<rparr>"

text \<open>Events as an agent sends them: a process event with its argv, a file event with its size.\<close>

definition proc_event :: "string \<Rightarrow> string \<Rightarrow> string list \<Rightarrow> Event" where
  "proc_event tenant eid cmd =
     zero_Event\<lparr>Event_TenantID := tenant,
                Event_Event := \<lparr> EventData_Type = ''process'', EventData_ID = eid,
                                 EventData_Category = [] \<rparr>,
                Event_Process := Some (zero_ProcessInfo\<lparr>ProcessInfo_Cmd := cmd\<rparr>)\<rparr>"

definition file_event :: "string \<Rightarrow> string \<Rightarrow> 64 word \<Rightarrow> Event" where
  "file_event tenant eid sz =
     zero_Event\<lparr>Event_TenantID := tenant,
                Event_Event := \<lparr> EventData_Type = ''file'', EventData_ID = eid,
                                 EventData_Category = [] \<rparr>,
                Event_File := Some (zero_FileInfo\<lparr>FileInfo_Size := Some sz\<rparr>)\<rparr>"

text \<open>
  Finite stand-ins for the two library parameters, used to write inputs: a decoder that knows
  the bodies of a table and rejects every other body, and a token check that knows the
  (token, key) pairs of a table and rejects every other token as malformed.
\<close>

definition decode_table :: "(string \<times> 'e list) list \<Rightarrow> string \<Rightarrow> string + 'e list" where
  "decode_table table body =
     (case map_of table body of
        None \<Rightarrow> Inl ''invalid character''
      | Some events \<Rightarrow> Inr events)"

definition verify_table :: "((string \<times> string) \<times> ParseResult) list \<Rightarrow> string \<Rightarrow> string \<Rightarrow> ParseResult" where
  "verify_table table tokenString key =
     (case map_of table (tokenString, key) of
        None \<Rightarrow> ParseError ErrTokenMalformed
      | Some r \<Rightarrow> r)"

text \<open>
  A store holding one event and one alert of each of two tenants, and a token check that
  accepts one token of each tenant.
\<close>

definition two_tenant_store :: DB where
  "two_tenant_store =
     \<lparr> DB_events = [(proc_event ''tenant1'' ''e1'' [''ls''])\<lparr>Event_ID := 1\<rparr>,
                    (proc_event ''tenant2'' ''e2'' [''ps''])\<lparr>Event_ID := 2\<rparr>],
       DB_alerts = [(newAlert 1 (proc_event ''tenant1'' ''e1'' [''ls'']) ''A'' ''high'')
                      \<lparr>Alert_ID := 1\<rparr>,
                    (newAlert 2 (proc_event ''tenant2'' ''e2'' [''ps'']) ''B'' ''high'')
                      \<lparr>Alert_ID := 2\<rparr>],
       DB_faults = [] \<rparr>"

definition two_tenant_tokens :: "string \<Rightarrow> string \<Rightarrow> ParseResult" where
  "two_tenant_tokens =
     verify_table
       [((''token1'', ''secret''),
           Token True \<lparr> Claims_UserID = ''u1'', Claims_TenantID = ''tenant1'',
                        Claims_Role = ''analyst'' \<rparr>),
        ((''token2'', ''secret''),
           Token True \<lparr> Claims_UserID = ''u2'', Claims_TenantID = ''tenant2'',
                        Claims_Role = ''analyst'' \<rparr>),
        ((''forged'', ''secret''), ParseError ErrTokenSignatureInvalid),
        ((''stale'', ''secret''), ParseError ErrTokenExpired)]"





section \<open>Facts about the detection pass\<close>

lemmas eval_defs = new_handler_def empty_DB_def proc_event_def file_event_def zero_Event_def
  zero_ProcessInfo_def zero_FileInfo_def process_event_def createAlert_def Create_def
  next_fault_def consume_fault_def newAlert_def suspiciousCmds_def alerts_created_def Let_def

text \<open>\<open>Contains\<close> is the contiguous-substring relation.\<close>

lemma HasPrefix_prefix: "HasPrefix s p \<longleftrightarrow> prefix p s"
  by (induction s p rule: HasPrefix.induct) auto

lemma Contains_sublist: "Contains s substr \<longleftrightarrow> sublist substr s"
  by (induction s) (auto simp: HasPrefix_prefix sublist_Cons_right)

lemma createAlerts_append:
  "createAlerts now (rs @ rs') h = createAlerts now rs' (createAlerts now rs h)"
  by (induction rs arbitrary: h) auto

lemma scan_suspicious_eq:
  "scan_suspicious now event cmd vs h =
     (if list_ex (Contains cmd) vs
      then createAlert now event ''Suspicious data transfer tool detected'' ''high'' h else h)"
  by (induction vs) auto

lemma scan_cmds_eq:
  "scan_cmds now event cmds h =
     createAlerts now
       (map (\<lambda>_. (event, ''Suspicious data transfer tool detected'', ''high''))
          (filter suspicious_token cmds)) h"
  by (induction cmds arbitrary: h) (auto simp: scan_suspicious_eq suspicious_token_def)

lemma process_event_eq:
  "process_event now event h = createAlerts now (map (\<lambda>(t, s). (event, t, s)) (matches event)) h"
  by (auto simp: process_event_def matches_def large_file_def scan_cmds_eq createAlerts_append
        Let_def comp_def split: option.splits)

lemma processEventsForAlerts_eq:
  "processEventsForAlerts now events h = createAlerts now (requests events) h"
  by (induction events arbitrary: h) (auto simp: requests_def process_event_eq createAlerts_append)

lemma createAlert_db:
  "db (createAlert now e t s h) =
     (if next_fault (db h) then consume_fault (db h)
      else (consume_fault (db h))\<lparr>DB_alerts := DB_alerts (db h) @
             [(newAlert now e t s)\<lparr>Alert_ID := of_nat (Suc (length (DB_alerts (db h))))\<rparr>]\<rparr>)"
  by (simp add: createAlert_def Create_def Let_def)

lemma createAlert_logger:
  "logger (createAlert now e t s h) = logger h @
     [if next_fault (db h)
      then Entry ErrorLevel ''Failed to create alert'' [(''error'', ErrorValue)]
      else Entry InfoLevel ''Created alert''
             [(''alert_id'', UintValue (of_nat (Suc (length (DB_alerts (db h))))))]]"
  by (simp add: createAlert_def Create_def Let_def)

lemma createAlert_alerts:
  "DB_alerts (db (createAlert now e t s h)) = DB_alerts (db h) @
     (if next_fault (db h) then []
      else [(newAlert now e t s)\<lparr>Alert_ID := of_nat (Suc (length (DB_alerts (db h))))\<rparr>])"
  by (simp add: createAlert_db consume_fault_def)

lemma createAlert_faults:
  "DB_faults (db (createAlert now e t s h)) = tl (DB_faults (db h))"
  by (simp add: createAlert_db consume_fault_def)

lemma createAlert_events:
  "DB_events (db (createAlert now e t s h)) = DB_events (db h)"
  by (simp add: createAlert_db consume_fault_def)

lemma outcomes_Suc:
  "outcomes (Suc n) d = next_fault d # outcomes n (consume_fault d)"
  by (cases "DB_faults d") (simp_all add: outcomes_def next_fault_def consume_fault_def)

lemma outcomes_createAlert:
  "outcomes (Suc n) (db h) = next_fault (db h) # outcomes n (db (createAlert now e t s h))"
proof -
  have "DB_faults (consume_fault (db h)) = DB_faults (db (createAlert now e t s h))"
    by (simp add: createAlert_faults consume_fault_def)
  then have "outcomes n (consume_fault (db h)) = outcomes n (db (createAlert now e t s h))"
    by (simp add: outcomes_def)
  then show ?thesis
    by (simp add: outcomes_Suc)
qed

lemma without_id_newAlert: "without_id ((newAlert now e t s)\<lparr>Alert_ID := i\<rparr>) = newAlert now e t s"
  by (simp add: without_id_def newAlert_def)


lemma createAlerts_alerts:
  "\<exists>new. DB_alerts (db (createAlerts now rs h)) = DB_alerts (db h) @ new \<and>
     map without_id new =
       map (\<lambda>(e, t, s). newAlert now e t s) (accepted (outcomes (length rs) (db h)) rs)"
proof (induction rs arbitrary: h)
  case Nil
  then show ?case by (simp add: accepted_def)
next
  case (Cons r rs)
  obtain e t s where r: "r = (e, t, s)" by (cases r)
  let ?h1 = "createAlert now e t s h"
  from Cons.IH [of ?h1] obtain new where
    new: "DB_alerts (db (createAlerts now rs ?h1)) = DB_alerts (db ?h1) @ new"
      "map without_id new =
         map (\<lambda>(e, t, s). newAlert now e t s) (accepted (outcomes (length rs) (db ?h1)) rs)"
    by blast
  show ?case
  proof (cases "next_fault (db h)")
    case True
    then show ?thesis
      using new r
      by (simp add: createAlert_alerts accepted_def outcomes_createAlert [of _ _ now e t s])
  next
    case False
    then show ?thesis
      using new r
      by (simp add: createAlert_alerts accepted_def outcomes_createAlert [of _ _ now e t s]
            without_id_newAlert)
  qed
qed

lemma alerts_created_createAlerts:
  "DB_alerts (db (createAlerts now rs h)) = DB_alerts (db h) @ alerts_created h (createAlerts now rs h)"
  "map without_id (alerts_created h (createAlerts now rs h)) =
     map (\<lambda>(e, t, s). newAlert now e t s) (accepted (outcomes (length rs) (db h)) rs)"
  using createAlerts_alerts [of now rs h] by (auto simp: alerts_created_def)

lemma createAlerts_logger:
  "\<exists>new. logger (createAlerts now rs h) = logger h @ new \<and>
     map (\<lambda>x. case x of Entry l m fs \<Rightarrow> (l, m)) new =
       map (\<lambda>failed. if failed then (ErrorLevel, ''Failed to create alert'')
                      else (InfoLevel, ''Created alert'')) (outcomes (length rs) (db h))"
proof (induction rs arbitrary: h)
  case Nil
  then show ?case by (simp add: outcomes_def)
next
  case (Cons r rs)
  obtain e t s where r: "r = (e, t, s)" by (cases r)
  let ?h1 = "createAlert now e t s h"
  from Cons.IH [of ?h1] obtain new where
    new: "logger (createAlerts now rs ?h1) = logger ?h1 @ new"
      "map (\<lambda>x. case x of Entry l m fs \<Rightarrow> (l, m)) new =
       map (\<lambda>failed. if failed then (ErrorLevel, ''Failed to create alert'')
                      else (InfoLevel, ''Created alert'')) (outcomes (length rs) (db ?h1))"
    by blast
  show ?case
    using new r
    by (simp add: createAlert_logger outcomes_createAlert [of _ _ now e t s])
qed

lemma createAlerts_events: "DB_events (db (createAlerts now rs h)) = DB_events (db h)"
  by (induction rs arbitrary: h) (auto simp: createAlert_events)

lemma createAlerts_faults: "DB_faults (db (createAlerts now rs h)) = drop (length rs) (DB_faults (db h))"
  by (induction rs arbitrary: h) (auto simp: createAlert_faults drop_Suc tl_drop)

lemma outcomes_accepts: "accepts_writes d \<Longrightarrow> outcomes n d = replicate n False"
proof -
  assume "accepts_writes d"
  then have "\<forall>b\<in>set (DB_faults d). b = False"
    by (simp add: accepts_writes_def list_ex_iff)
  then have "replicate (length (DB_faults d)) False = DB_faults d"
    by (rule replicate_length_same)
  then have "take n (DB_faults d) = replicate (min (length (DB_faults d)) n) False"
    by (metis take_replicate min.commute)
  then show ?thesis
    by (simp add: outcomes_def replicate_add [symmetric])
qed

lemma accepted_replicate: "accepted (replicate (length rs) False) rs = rs"
  by (induction rs) (auto simp: accepted_def)

lemma set_accepted: "set (accepted outs rs) \<subseteq> set rs"
  by (auto simp: accepted_def dest: set_zip_rightD)

lemma created_origin:
  assumes "a \<in> set (alerts_created h (processEventsForAlerts now events h))"
  shows "\<exists>e t s. (e, t, s) \<in> set (requests events) \<and> without_id a = newAlert now e t s"
proof -
  let ?rs = "requests events"
  let ?f = "\<lambda>(e, t, s). newAlert now e t s"
  from assms have "a \<in> set (alerts_created h (createAlerts now ?rs h))"
    by (simp only: processEventsForAlerts_eq)
  then have "without_id a \<in> set (map without_id (alerts_created h (createAlerts now ?rs h)))"
    by (simp only: set_map) (rule imageI)
  then have "without_id a \<in> set (map ?f (accepted (outcomes (length ?rs) (db h)) ?rs))"
    by (simp only: alerts_created_createAlerts(2))
  then have "\<exists>r \<in> set (accepted (outcomes (length ?rs) (db h)) ?rs). without_id a = ?f r"
    by (simp only: set_map image_iff)
  then obtain r where r: "r \<in> set (accepted (outcomes (length ?rs) (db h)) ?rs)"
    and a: "without_id a = ?f r" ..
  have "r \<in> set ?rs"
    by (rule subsetD [OF set_accepted r])
  with a show ?thesis by (cases r) auto
qed

lemma requests_mem:
  "(e, t, s) \<in> set (requests events) \<Longrightarrow> e \<in> set events \<and> (t, s) \<in> set (matches e)"
  by (auto simp: requests_def)

lemma without_id_fields:
  "Alert_TenantID (without_id a) = Alert_TenantID a"
  "Alert_Entities (without_id a) = Alert_Entities a"
  "Alert_Evidence (without_id a) = Alert_Evidence a"
  "Alert_Status (without_id a) = Alert_Status a"
  "Alert_RuleID (without_id a) = Alert_RuleID a"
  "Alert_RuleVersion (without_id a) = Alert_RuleVersion a"
  "Alert_UEBAScore (without_id a) = Alert_UEBAScore a"
  "Alert_Title (without_id a) = Alert_Title a"
  "Alert_Severity (without_id a) = Alert_Severity a"
  by (simp_all add: without_id_def)

lemma matches_large_count:
  "length (filter (\<lambda>(t, s). s = ''medium'' \<and> t = ''Large file operation detected'') (matches e)) =
     (if large_file e then 1 else 0)"
  by (simp add: matches_def filter_map comp_def split: option.splits)

section \<open>Properties of detection\<close>

text \<open>
  The suspicious-tool rule creates one alert for every argv token that contains a vocabulary
  entry: the \<open>break\<close> leaves only the loop over the vocabulary.
\<close>

lemma matches_suspicious_count:
  "length (filter (\<lambda>(t, s). s = ''high'' \<and> t = ''Suspicious data transfer tool detected'')
       (matches e)) =
     (case Event_Process e of None \<Rightarrow> 0
      | Some p \<Rightarrow> length (filter suspicious_token (ProcessInfo_Cmd p)))"
  by (simp add: matches_def filter_map comp_def split: option.splits)

lemma suspicious_alerts_per_token:
  assumes "accepts_writes (db h)"
  shows "length (filter (\<lambda>a. Alert_Severity a = ''high'' \<and>
                              Alert_Title a = ''Suspicious data transfer tool detected'')
                   (alerts_created h (processEventsForAlerts now [event] h))) =
           (case Event_Process event of None \<Rightarrow> 0
            | Some p \<Rightarrow> length (filter suspicious_token (ProcessInfo_Cmd p)))"
proof -
  let ?P = "\<lambda>a. Alert_Severity a = ''high'' \<and> Alert_Title a = ''Suspicious data transfer tool detected''"
  let ?new = "alerts_created h (processEventsForAlerts now [event] h)"
  have rs: "requests [event] = map (\<lambda>(t, s). (event, t, s)) (matches event)"
    by (simp add: requests_def)
  have "map without_id ?new = map (\<lambda>(e, t, s). newAlert now e t s) (requests [event])"
    using assms(1)
    by (simp add: processEventsForAlerts_eq alerts_created_createAlerts(2) outcomes_accepts
          accepted_replicate)
  then have eq: "map without_id ?new = map (\<lambda>(t, s). newAlert now event t s) (matches event)"
    by (simp add: rs comp_def case_prod_beta)
  have "length (filter ?P ?new) = length (filter ?P (map without_id ?new))"
    by (simp add: filter_map comp_def without_id_fields)
  also have "\<dots> = length (filter ?P (map (\<lambda>(t, s). newAlert now event t s) (matches event)))"
    by (simp only: eq)
  also have "\<dots> = length (filter (\<lambda>(t, s). s = ''high'' \<and> t = ''Suspicious data transfer tool detected'')
                         (matches event))"
    by (simp add: filter_map comp_def case_prod_unfold newAlert_def)
  finally show ?thesis
    by (simp add: matches_suspicious_count)
qed

text \<open>
  Claim C3. An event whose argv holds the two tokens "curl" and "wget" gets two alerts from one
  detection pass, equal in every field but the primary key, both with severity high and title
  "Suspicious data transfer tool detected"; the argv ["curl", "https://x"] gets one alert and
  an argv without a vocabulary entry gets none.
\<close>

theorem suspicious_tokens_duplicate_alerts:
  "map without_id
     (DB_alerts (db (processEventsForAlerts 0 [proc_event ''t1'' ''e1'' [''curl'', ''wget'']]
        (new_handler empty_DB)))) =
   [newAlert 0 (proc_event ''t1'' ''e1'' [''curl'', ''wget''])
      ''Suspicious data transfer tool detected'' ''high'',
    newAlert 0 (proc_event ''t1'' ''e1'' [''curl'', ''wget''])
      ''Suspicious data transfer tool detected'' ''high''] \<and>
   length (DB_alerts (db (processEventsForAlerts 0 [proc_event ''t1'' ''e1'' [''curl'', ''https://x'']]
        (new_handler empty_DB)))) = 1 \<and>
   DB_alerts (db (processEventsForAlerts 0 [proc_event ''t1'' ''e1'' [''ls'', ''-l'']]
        (new_handler empty_DB))) = []"
  by (simp add: eval_defs without_id_def)

text \<open>
  Claim C4. For an event carrying a file descriptor, on a store that accepts the inserts, one
  detection pass over the event adds exactly one alert with severity medium and title
  "Large file operation detected" when the file size is present and exceeds
  100 * 1024 * 1024 bytes, and no such alert otherwise. The witness takes the sizes
  150 * 1024 * 1024 (one alert) and 50 * 1024 * 1024 (none).
\<close>

theorem large_file_alert_iff:
  assumes "accepts_writes (db h)" and "Event_File event = Some f"
  shows "length (filter (\<lambda>a. Alert_Severity a = ''medium'' \<and>
                              Alert_Title a = ''Large file operation detected'')
                   (alerts_created h (processEventsForAlerts now [event] h))) =
           (if \<exists>sz. FileInfo_Size f = Some sz \<and> 100 * 1024 * 1024 < unat sz then 1 else 0)"
proof -
  let ?P = "\<lambda>a. Alert_Severity a = ''medium'' \<and> Alert_Title a = ''Large file operation detected''"
  let ?new = "alerts_created h (processEventsForAlerts now [event] h)"
  have rs: "requests [event] = map (\<lambda>(t, s). (event, t, s)) (matches event)"
    by (simp add: requests_def)
  have "map without_id ?new = map (\<lambda>(e, t, s). newAlert now e t s) (requests [event])"
    using assms(1)
    by (simp add: processEventsForAlerts_eq alerts_created_createAlerts(2) outcomes_accepts
          accepted_replicate)
  then have eq: "map without_id ?new = map (\<lambda>(t, s). newAlert now event t s) (matches event)"
    by (simp add: rs comp_def case_prod_beta)
  have "length (filter ?P ?new) = length (filter ?P (map without_id ?new))"
    by (simp add: filter_map comp_def without_id_fields)
  also have "\<dots> = length (filter ?P (map (\<lambda>(t, s). newAlert now event t s) (matches event)))"
    by (simp only: eq)
  also have "\<dots> = length (filter (\<lambda>(t, s). s = ''medium'' \<and> t = ''Large file operation detected'')
                         (matches event))"
    by (simp add: filter_map comp_def case_prod_unfold newAlert_def)
  also have "\<dots> = (if large_file event then 1 else 0)"
    by (rule matches_large_count)
  also have "large_file event \<longleftrightarrow> (\<exists>sz. FileInfo_Size f = Some sz \<and> 100 * 1024 * 1024 < unat sz)"
    using assms(2) by (auto simp: large_file_def word_less_nat_alt split: option.splits)
  finally show ?thesis .
qed

theorem large_file_alert_iff_witness:
  "accepts_writes (db (new_handler empty_DB)) \<and>
   Event_File (file_event ''t1'' ''e1'' (150 * 1024 * 1024)) =
     Some (zero_FileInfo\<lparr>FileInfo_Size := Some (150 * 1024 * 1024)\<rparr>) \<and>
   length (filter (\<lambda>a. Alert_Severity a = ''medium'' \<and>
                        Alert_Title a = ''Large file operation detected'')
             (alerts_created (new_handler empty_DB)
                (processEventsForAlerts 0 [file_event ''t1'' ''e1'' (150 * 1024 * 1024)]
                   (new_handler empty_DB)))) = 1 \<and>
   length (filter (\<lambda>a. Alert_Severity a = ''medium'' \<and>
                        Alert_Title a = ''Large file operation detected'')
             (alerts_created (new_handler empty_DB)
                (processEventsForAlerts 0 [file_event ''t1'' ''e2'' (50 * 1024 * 1024)]
                   (new_handler empty_DB)))) = 0"
proof -
  have w: "accepts_writes (db (new_handler empty_DB))"
    by (simp add: accepts_writes_def new_handler_def empty_DB_def)
  have f1: "Event_File (file_event ''t1'' ''e1'' (150 * 1024 * 1024)) =
     Some (zero_FileInfo\<lparr>FileInfo_Size := Some (150 * 1024 * 1024)\<rparr>)"
    by (simp add: file_event_def zero_Event_def)
  have f2: "Event_File (file_event ''t1'' ''e2'' (50 * 1024 * 1024)) =
     Some (zero_FileInfo\<lparr>FileInfo_Size := Some (50 * 1024 * 1024)\<rparr>)"
    by (simp add: file_event_def zero_Event_def)
  show ?thesis
    using w f1 large_file_alert_iff [OF w f1, of 0] large_file_alert_iff [OF w f2, of 0]
    by (simp add: zero_FileInfo_def)
qed

text \<open>
  When the event id identifies the event within the batch, every event of the batch that the
  evidence of an alert names has the tenant id of the alert.
\<close>

lemma evidence_events_same_tenant:
  assumes "a \<in> set (alerts_created h (processEventsForAlerts now events h))"
    and "inj_on (\<lambda>e. EventData_ID (Event_Event e)) (set events)"
    and "e' \<in> set events"
    and "EventData_ID (Event_Event e') \<in> set (Alert_Evidence a)"
  shows "Event_TenantID e' = Alert_TenantID a"
proof -
  from created_origin [OF assms(1)] obtain e t s where
    r: "(e, t, s) \<in> set (requests events)" and a: "without_id a = newAlert now e t s"
    by blast
  from r have e: "e \<in> set events" by (simp add: requests_mem)
  have ev: "Alert_Evidence a = [EventData_ID (Event_Event e)]"
    using without_id_fields(3) [of a] a by (simp add: newAlert_def)
  have tn: "Alert_TenantID a = Event_TenantID e"
    using without_id_fields(1) [of a] a by (simp add: newAlert_def)
  from assms(4) ev have "EventData_ID (Event_Event e') = EventData_ID (Event_Event e)"
    by simp
  with assms(2,3) e have "e' = e"
    by (auto dest: inj_onD)
  with tn show ?thesis by simp
qed

text \<open>
  Every insert request of a batch belongs to an event of the batch that satisfies the rule
  the request is for.
\<close>

lemma matches_mem:
  assumes "(t, s) \<in> set (matches e)"
  shows "(t = ''Suspicious data transfer tool detected'' \<and> s = ''high'' \<and>
          (\<exists>p. Event_Process e = Some p \<and> (\<exists>cmd \<in> set (ProcessInfo_Cmd p). suspicious_token cmd))) \<or>
         (t = ''Large file operation detected'' \<and> s = ''medium'' \<and> large_file e)"
proof (cases "Event_Process e")
  case None
  with assms have "large_file e" and "(t, s) = (''Large file operation detected'', ''medium'')"
    by (simp_all add: matches_def split: if_splits)
  then show ?thesis by simp
next
  case (Some p)
  with assms have
    "(t, s) \<in> set (map (\<lambda>_. (''Suspicious data transfer tool detected'', ''high''))
                    (filter suspicious_token (ProcessInfo_Cmd p))) \<or>
     (large_file e \<and> (t, s) = (''Large file operation detected'', ''medium''))"
    by (auto simp: matches_def split: if_splits)
  then show ?thesis
  proof
    assume "(t, s) \<in> set (map (\<lambda>_. (''Suspicious data transfer tool detected'', ''high''))
                    (filter suspicious_token (ProcessInfo_Cmd p)))"
    then obtain cmd where "cmd \<in> set (ProcessInfo_Cmd p)" and "suspicious_token cmd"
      and "(t, s) = (''Suspicious data transfer tool detected'', ''high'')"
      by auto
    with Some show ?thesis by blast
  next
    assume "large_file e \<and> (t, s) = (''Large file operation detected'', ''medium'')"
    then show ?thesis by simp
  qed
qed

lemma large_file_size:
  "large_file e \<longleftrightarrow>
     (\<exists>f sz. Event_File e = Some f \<and> FileInfo_Size f = Some sz \<and> 100 * 1024 * 1024 < unat sz)"
  by (auto simp: large_file_def word_less_nat_alt split: option.splits)

lemma requests_are_rule_matches:
  assumes "(e, t, s) \<in> set (requests events)"
  shows "e \<in> set events \<and>
         ((t = ''Suspicious data transfer tool detected'' \<and> s = ''high'' \<and>
           (\<exists>p. Event_Process e = Some p \<and>
              (\<exists>cmd \<in> set (ProcessInfo_Cmd p). \<exists>v \<in> set suspiciousCmds. Contains cmd v))) \<or>
          (t = ''Large file operation detected'' \<and> s = ''medium'' \<and>
           (\<exists>f sz. Event_File e = Some f \<and> FileInfo_Size f = Some sz \<and>
              100 * 1024 * 1024 < unat sz)))"
proof -
  from assms have e: "e \<in> set events" and m: "(t, s) \<in> set (matches e)"
    by (simp_all add: requests_mem)
  from matches_mem [OF m] e show ?thesis
    unfolding large_file_size suspicious_token_def list_ex_iff by blast
qed

lemma created_fields:
  "map (\<lambda>a. (Alert_Title a, Alert_Severity a, Alert_TenantID a, Alert_Entities a,
              Alert_Evidence a, Alert_Status a))
     (alerts_created h (processEventsForAlerts now events h)) =
   map (\<lambda>(e, t, s).
          (t, s, Event_TenantID e,
           [''user'' \<mapsto> User_ID (Event_User e), ''host'' \<mapsto> Event_HostID e],
           [EventData_ID (Event_Event e)], ''open''))
     (accepted (outcomes (length (requests events)) (db h)) (requests events))"
proof -
  let ?F = "\<lambda>a. (Alert_Title a, Alert_Severity a, Alert_TenantID a, Alert_Entities a,
              Alert_Evidence a, Alert_Status a)"
  let ?new = "alerts_created h (processEventsForAlerts now events h)"
  let ?acc = "accepted (outcomes (length (requests events)) (db h)) (requests events)"
  have "map ?F ?new = map ?F (map without_id ?new)"
    by (simp add: comp_def without_id_fields)
  also have "map without_id ?new = map (\<lambda>(e, t, s). newAlert now e t s) ?acc"
    by (simp add: processEventsForAlerts_eq alerts_created_createAlerts(2))
  also have "map ?F (map (\<lambda>(e, t, s). newAlert now e t s) ?acc) =
     map (\<lambda>(e, t, s).
          (t, s, Event_TenantID e,
           [''user'' \<mapsto> User_ID (Event_User e), ''host'' \<mapsto> Event_HostID e],
           [EventData_ID (Event_Event e)], ''open'')) ?acc"
    by (simp add: comp_def case_prod_unfold newAlert_def)
  finally show ?thesis .
qed

text \<open>
  Claim C8, as amended. The alerts that a detection pass adds are, in order, the rule matches
  of the events of the batch whose insert did not fail, and each of them takes all its fields
  from the one event that triggered it: the tenant id is that event's tenant id, the entities
  are its user id and host id, the evidence is the list holding its event id, and the status
  is open. When the event id identifies the event within the batch, every event of the batch
  that the evidence of an alert names has the tenant id of the alert. The witness is a batch
  of two events of two tenants, each triggering one rule.
\<close>

theorem alert_fields_from_triggering_event:
  "map (\<lambda>a. (Alert_Title a, Alert_Severity a, Alert_TenantID a, Alert_Entities a,
              Alert_Evidence a, Alert_Status a))
     (alerts_created h (processEventsForAlerts now events h)) =
   map (\<lambda>(e, t, s).
          (t, s, Event_TenantID e,
           [''user'' \<mapsto> User_ID (Event_User e), ''host'' \<mapsto> Event_HostID e],
           [EventData_ID (Event_Event e)], ''open''))
     (accepted (outcomes (length (requests events)) (db h)) (requests events)) \<and>
   (inj_on (\<lambda>e. EventData_ID (Event_Event e)) (set events) \<longrightarrow>
      (\<forall>a \<in> set (alerts_created h (processEventsForAlerts now events h)).
         \<forall>e \<in> set events.
           EventData_ID (Event_Event e) \<in> set (Alert_Evidence a) \<longrightarrow>
             Event_TenantID e = Alert_TenantID a))"
proof (intro conjI impI ballI)
  show "map (\<lambda>a. (Alert_Title a, Alert_Severity a, Alert_TenantID a, Alert_Entities a,
              Alert_Evidence a, Alert_Status a))
     (alerts_created h (processEventsForAlerts now events h)) =
   map (\<lambda>(e, t, s).
          (t, s, Event_TenantID e,
           [''user'' \<mapsto> User_ID (Event_User e), ''host'' \<mapsto> Event_HostID e],
           [EventData_ID (Event_Event e)], ''open''))
     (accepted (outcomes (length (requests events)) (db h)) (requests events))"
    by (rule created_fields)
next
  fix a e
  assume inj: "inj_on (\<lambda>e. EventData_ID (Event_Event e)) (set events)"
    and a: "a \<in> set (alerts_created h (processEventsForAlerts now events h))"
    and e: "e \<in> set events"
    and ev: "EventData_ID (Event_Event e) \<in> set (Alert_Evidence a)"
  show "Event_TenantID e = Alert_TenantID a"
    by (rule evidence_events_same_tenant [OF a inj e ev])
qed

theorem alert_fields_from_triggering_event_witness:
  "inj_on (\<lambda>e. EventData_ID (Event_Event e))
     (set [proc_event ''t1'' ''e1'' [''curl'', ''https://x''],
           file_event ''t2'' ''e2'' (150 * 1024 * 1024)]) \<and>
   map (\<lambda>a. (Alert_Title a, Alert_Severity a, Alert_TenantID a, Alert_Entities a,
              Alert_Evidence a, Alert_Status a))
     (alerts_created (new_handler empty_DB)
        (processEventsForAlerts 7
           [proc_event ''t1'' ''e1'' [''curl'', ''https://x''],
            file_event ''t2'' ''e2'' (150 * 1024 * 1024)]
           (new_handler empty_DB))) =
     [(''Suspicious data transfer tool detected'', ''high'', ''t1'',
       [''user'' \<mapsto> [], ''host'' \<mapsto> []], [''e1''], ''open''),
      (''Large file operation detected'', ''medium'', ''t2'',
       [''user'' \<mapsto> [], ''host'' \<mapsto> []], [''e2''], ''open'')] \<and>
   (newAlert 7 (file_event ''t2'' ''e2'' (150 * 1024 * 1024))
        ''Large file operation detected'' ''medium'')\<lparr>Alert_ID := 2\<rparr>
     \<in> set (alerts_created (new_handler empty_DB)
              (processEventsForAlerts 7
                 [proc_event ''t1'' ''e1'' [''curl'', ''https://x''],
                  file_event ''t2'' ''e2'' (150 * 1024 * 1024)]
                 (new_handler empty_DB))) \<and>
   EventData_ID (Event_Event (file_event ''t2'' ''e2'' (150 * 1024 * 1024)))
     \<in> set (Alert_Evidence
         ((newAlert 7 (file_event ''t2'' ''e2'' (150 * 1024 * 1024))
             ''Large file operation detected'' ''medium'')\<lparr>Alert_ID := 2\<rparr>)) \<and>
   Event_TenantID (file_event ''t2'' ''e2'' (150 * 1024 * 1024)) =
     Alert_TenantID
       ((newAlert 7 (file_event ''t2'' ''e2'' (150 * 1024 * 1024))
           ''Large file operation detected'' ''medium'')\<lparr>Alert_ID := 2\<rparr>)"
proof -
  let ?e1 = "proc_event ''t1'' ''e1'' [''curl'', ''https://x'']"
  let ?e2 = "file_event ''t2'' ''e2'' (150 * 1024 * 1024)"
  let ?h = "new_handler empty_DB"
  let ?a2 = "(newAlert 7 ?e2 ''Large file operation detected'' ''medium'')\<lparr>Alert_ID := 2\<rparr>"
  have "distinct (map (\<lambda>e. EventData_ID (Event_Event e)) [?e1, ?e2])"
    by (simp add: proc_event_def file_event_def zero_Event_def)
  then have inj: "inj_on (\<lambda>e. EventData_ID (Event_Event e)) (set [?e1, ?e2])"
    by (rule distinct_map [THEN iffD1, THEN conjunct2])
  have rs: "requests [?e1, ?e2] =
      [(?e1, ''Suspicious data transfer tool detected'', ''high''),
       (?e2, ''Large file operation detected'', ''medium'')]"
    by (simp add: requests_def matches_def suspicious_token_def suspiciousCmds_def large_file_def
          proc_event_def file_event_def zero_Event_def zero_ProcessInfo_def zero_FileInfo_def)
  have out: "outcomes (length (requests [?e1, ?e2])) (db ?h) = [False, False]"
    unfolding rs by (simp add: outcomes_def new_handler_def empty_DB_def)
  have acc: "accepted [False, False] (requests [?e1, ?e2]) =
      [(?e1, ''Suspicious data transfer tool detected'', ''high''),
       (?e2, ''Large file operation detected'', ''medium'')]"
    unfolding rs by (simp add: accepted_def)
  note t = alert_fields_from_triggering_event [of ?h 7 "[?e1, ?e2]"]
  have f: "map (\<lambda>a. (Alert_Title a, Alert_Severity a, Alert_TenantID a, Alert_Entities a,
              Alert_Evidence a, Alert_Status a))
     (alerts_created ?h (processEventsForAlerts 7 [?e1, ?e2] ?h)) =
     [(''Suspicious data transfer tool detected'', ''high'', ''t1'',
       [''user'' \<mapsto> [], ''host'' \<mapsto> []], [''e1''], ''open''),
      (''Large file operation detected'', ''medium'', ''t2'',
       [''user'' \<mapsto> [], ''host'' \<mapsto> []], [''e2''], ''open'')]"
    using t [THEN conjunct1, unfolded out acc]
    by (simp add: proc_event_def file_event_def zero_Event_def)
  have m: "?a2 \<in> set (alerts_created ?h (processEventsForAlerts 7 [?e1, ?e2] ?h))"
    by (simp add: eval_defs)
  have e: "?e2 \<in> set [?e1, ?e2]"
    by simp
  have ev: "EventData_ID (Event_Event ?e2) \<in> set (Alert_Evidence ?a2)"
    by (simp add: newAlert_def)
  have tn: "Event_TenantID ?e2 = Alert_TenantID ?a2"
    by (rule t [THEN conjunct2, THEN mp, OF inj, THEN bspec, OF m, THEN bspec, OF e, THEN mp, OF ev])
  show ?thesis
    by (rule conjI [OF inj conjI [OF f conjI [OF m conjI [OF ev tn]]]])
qed

text \<open>
  Claim C8 as stated fails: the event id is supplied by the client and two events may carry
  the same one. In a batch of two events of the tenants t1 and t2 that both carry the event id
  "same", the first event triggers an alert with tenant id t1 and evidence ["same"]; the
  second event carries an id of that evidence list and has tenant id t2.
\<close>

theorem alert_fields_counterexample:
  "map Alert_TenantID
     (alerts_created (new_handler empty_DB)
        (processEventsForAlerts 0
           [proc_event ''t1'' ''same'' [''curl''], proc_event ''t2'' ''same'' [''ls'']]
           (new_handler empty_DB))) = [''t1''] \<and>
   map Alert_Evidence
     (alerts_created (new_handler empty_DB)
        (processEventsForAlerts 0
           [proc_event ''t1'' ''same'' [''curl''], proc_event ''t2'' ''same'' [''ls'']]
           (new_handler empty_DB))) = [[''same'']] \<and>
   EventData_ID (Event_Event (proc_event ''t2'' ''same'' [''ls''])) = ''same'' \<and>
   Event_TenantID (proc_event ''t2'' ''same'' [''ls'']) = ''t2''"
  by (simp add: eval_defs)

text \<open>
  Claim C9. A failure while one event is evaluated does not stop the pass. The pass over a
  batch is the pass over the events one after the other, each starting in the state its
  predecessor left; whatever the store does, the rows added are exactly the rule matches of
  all events of the batch whose own insert did not fail (an event without process or file
  descriptor, or without a file size, has no match and causes no fault); and every insert
  leaves one log entry, "Failed to create alert" at error level when it failed. The witness
  is a batch of three events on a store whose first insert fails: the alert of the first
  event is lost and logged, the second event has no descriptor, the alert of the third
  event is stored.
\<close>

theorem detection_isolates_failures:
  "processEventsForAlerts now (before @ event # rest) h =
     processEventsForAlerts now rest
       (processEventsForAlerts now [event] (processEventsForAlerts now before h)) \<and>
   map without_id (alerts_created h (processEventsForAlerts now events h)) =
     map (\<lambda>(e, t, s). newAlert now e t s)
       (accepted (outcomes (length (requests events)) (db h)) (requests events)) \<and>
   map level_message (logged h (processEventsForAlerts now events h)) =
     map (\<lambda>failed. if failed then (ErrorLevel, ''Failed to create alert'')
                    else (InfoLevel, ''Created alert''))
       (outcomes (length (requests events)) (db h))"
proof -
  have "requests (before @ event # rest) = requests before @ requests [event] @ requests rest"
    by (simp add: requests_def)
  then have 1: "processEventsForAlerts now (before @ event # rest) h =
     processEventsForAlerts now rest
       (processEventsForAlerts now [event] (processEventsForAlerts now before h))"
    by (simp only: processEventsForAlerts_eq createAlerts_append)
  have 2: "map without_id (alerts_created h (processEventsForAlerts now events h)) =
     map (\<lambda>(e, t, s). newAlert now e t s)
       (accepted (outcomes (length (requests events)) (db h)) (requests events))"
    by (simp add: processEventsForAlerts_eq alerts_created_createAlerts(2))
  from createAlerts_logger [of now "requests events" h]
  have 3: "map level_message (logged h (processEventsForAlerts now events h)) =
     map (\<lambda>failed. if failed then (ErrorLevel, ''Failed to create alert'')
                    else (InfoLevel, ''Created alert''))
       (outcomes (length (requests events)) (db h))"
    by (auto simp: processEventsForAlerts_eq logged_def level_message_def [abs_def])
  from 1 2 3 show ?thesis by blast
qed

theorem detection_isolates_failures_witness:
  "map without_id
     (alerts_created (new_handler (empty_DB\<lparr>DB_faults := [True]\<rparr>))
        (processEventsForAlerts 3
           [proc_event ''t1'' ''e1'' [''wget'', ''http://evil''],
            zero_Event,
            file_event ''t2'' ''e2'' (150 * 1024 * 1024)]
           (new_handler (empty_DB\<lparr>DB_faults := [True]\<rparr>)))) =
     [newAlert 3 (file_event ''t2'' ''e2'' (150 * 1024 * 1024))
        ''Large file operation detected'' ''medium''] \<and>
   map level_message
     (logged (new_handler (empty_DB\<lparr>DB_faults := [True]\<rparr>))
        (processEventsForAlerts 3
           [proc_event ''t1'' ''e1'' [''wget'', ''http://evil''],
            zero_Event,
            file_event ''t2'' ''e2'' (150 * 1024 * 1024)]
           (new_handler (empty_DB\<lparr>DB_faults := [True]\<rparr>)))) =
     [(ErrorLevel, ''Failed to create alert''), (InfoLevel, ''Created alert'')]"
proof -
  let ?es = "[proc_event ''t1'' ''e1'' [''wget'', ''http://evil''], zero_Event,
              file_event ''t2'' ''e2'' (150 * 1024 * 1024)]"
  have rs: "requests ?es =
      [(proc_event ''t1'' ''e1'' [''wget'', ''http://evil''],
          ''Suspicious data transfer tool detected'', ''high''),
       (file_event ''t2'' ''e2'' (150 * 1024 * 1024), ''Large file operation detected'', ''medium'')]"
    by (simp add: requests_def matches_def suspicious_token_def suspiciousCmds_def large_file_def
          proc_event_def file_event_def zero_Event_def zero_ProcessInfo_def zero_FileInfo_def)
  let ?h = "new_handler (empty_DB\<lparr>DB_faults := [True]\<rparr>)"
  have out: "outcomes (length (requests ?es)) (db ?h) = [True, False]"
    unfolding rs by (simp add: outcomes_def new_handler_def empty_DB_def)
  have acc: "accepted [True, False] (requests ?es) =
      [(file_event ''t2'' ''e2'' (150 * 1024 * 1024), ''Large file operation detected'', ''medium'')]"
    unfolding rs by (simp add: accepted_def)
  note t = detection_isolates_failures [of 3 "[]" zero_Event "[]" ?h ?es]
  from t [unfolded out acc] show ?thesis
    by simp
qed

text \<open>
  Claim C10. Every alert carries the rule id "RULE_AUTO", the rule version "1.0" and the
  score 75, whatever title and severity it is created with, so the rule id and version of an
  alert do not tell the two built-in rules apart.
\<close>

theorem rule_identity_constant:
  "Alert_RuleID (newAlert now event title severity) = ''RULE_AUTO'' \<and>
   Alert_RuleVersion (newAlert now event title severity) = ''1.0'' \<and>
   Alert_UEBAScore (newAlert now event title severity) = 75 \<and>
   list_all (\<lambda>a. Alert_RuleID a = ''RULE_AUTO'' \<and> Alert_RuleVersion a = ''1.0'' \<and>
                 Alert_UEBAScore a = 75)
     (alerts_created h (processEventsForAlerts now' events h))"
proof -
  have "Alert_RuleID a = ''RULE_AUTO'' \<and> Alert_RuleVersion a = ''1.0'' \<and> Alert_UEBAScore a = 75"
    if "a \<in> set (alerts_created h (processEventsForAlerts now' events h))" for a
  proof -
    from created_origin [OF that] obtain e t s where a: "without_id a = newAlert now' e t s"
      by blast
    show ?thesis
      using without_id_fields(5,6,7) [of a] a by (simp add: newAlert_def)
  qed
  then show ?thesis
    by (simp add: list_all_iff newAlert_def)
qed

section \<open>Properties of ingestion\<close>

lemma length_assign_event_ids: "length (assign_event_ids n es) = length es"
  by (induction es arbitrary: n) auto

lemma assign_event_ids_without_id:
  "map (\<lambda>e. e\<lparr>Event_ID := 0\<rparr>) (assign_event_ids n es) = map (\<lambda>e. e\<lparr>Event_ID := 0\<rparr>) es"
  by (induction es arbitrary: n) auto

lemma IngestEvents_rejected:
  assumes "ShouldBindJSON (Request_Body c) = Inl err"
  shows "IngestEvents ShouldBindJSON now h c =
           (h\<lparr>logger := logger h @
                [Entry ErrorLevel ''Failed to bind events JSON'' [(''error'', ErrorValue)]]\<rparr>,
            JSON 400 (ErrorBody ''Invalid JSON format'') c, None)"
  using assms by (simp add: IngestEvents_def)

lemma IngestEvents_failed:
  assumes "ShouldBindJSON (Request_Body c) = Inr events" and "next_fault (db h)"
  shows "IngestEvents ShouldBindJSON now h c =
           (h\<lparr>db := consume_fault (db h),
              logger := logger h @
                [Entry ErrorLevel ''Failed to insert events'' [(''error'', ErrorValue)]]\<rparr>,
            JSON 500 (ErrorBody ''Failed to process events'') c, None)"
  using assms by (simp add: IngestEvents_def CreateInBatch_def)

lemma IngestEvents_stored:
  assumes "ShouldBindJSON (Request_Body c) = Inr events" and "\<not> next_fault (db h)"
    and "rows = assign_event_ids (length (DB_events (db h)))
           (map (\<lambda>e. e\<lparr>Event_ID := 0, Event_CreatedAt := now, Event_UpdatedAt := now\<rparr>) events)"
  shows "IngestEvents ShouldBindJSON now h c =
           (h\<lparr>db := (consume_fault (db h))\<lparr>DB_events := DB_events (db h) @ rows\<rparr>,
              logger := logger h @
                [Entry InfoLevel ''Successfully ingested events''
                   [(''count'', IntValue (int (length events)))]]\<rparr>,
            JSON 200 (IngestBody ''ok'' (length events)) c, Some rows)"
  using assms by (simp add: IngestEvents_def CreateInBatch_def Let_def length_assign_event_ids)

lemma stamped_rows:
  "map (\<lambda>e. e\<lparr>Event_ID := 0\<rparr>)
     (assign_event_ids n
        (map (\<lambda>e. e\<lparr>Event_ID := 0, Event_CreatedAt := now, Event_UpdatedAt := now\<rparr>) events)) =
   map (\<lambda>e. e\<lparr>Event_ID := 0, Event_CreatedAt := now, Event_UpdatedAt := now\<rparr>) events"
  by (simp add: assign_event_ids_without_id)

lemmas ingest_defs = IngestEvents_def CreateInBatch_def decode_table_def request_def JSON_def
  main_post_events_def main_get_events_def






text \<open>
  Claim C2. For every decoded batch: when the batch insert fails, \<open>IngestEvents\<close> answers
  500 with "Failed to process events", leaves the events table as it was and schedules no
  detection pass; when it succeeds, \<open>IngestEvents\<close> answers 200 with the count of the batch
  and has appended every event of the batch (stamped with the creation time) to the events
  table. The witness takes a store whose insert fails and one whose insert succeeds.
\<close>

theorem ingest_all_or_nothing:
  assumes "ShouldBindJSON (Request_Body c) = Inr events"
  shows "case IngestEvents ShouldBindJSON now h c of
           (h', c', scheduled) \<Rightarrow>
             if next_fault (db h)
             then Writer c' = Some \<lparr>Response_Status = 500,
                                    Response_Body = ErrorBody ''Failed to process events''\<rparr> \<and>
                  DB_events (db h') = DB_events (db h) \<and> scheduled = None
             else Writer c' = Some \<lparr>Response_Status = 200,
                                    Response_Body = IngestBody ''ok'' (length events)\<rparr> \<and>
                  (\<exists>rows. DB_events (db h') = DB_events (db h) @ rows \<and>
                     map (\<lambda>e. e\<lparr>Event_ID := 0\<rparr>) rows =
                       map (\<lambda>e. e\<lparr>Event_ID := 0, Event_CreatedAt := now, Event_UpdatedAt := now\<rparr>)
                         events)"
proof (cases "next_fault (db h)")
  case True
  then show ?thesis
    by (simp add: IngestEvents_failed [where ShouldBindJSON = ShouldBindJSON and c = c, OF assms True]
          JSON_def consume_fault_def)
next
  case False
  then show ?thesis
    by (simp add: IngestEvents_stored [where ShouldBindJSON = ShouldBindJSON and c = c, OF assms False refl]
          JSON_def stamped_rows consume_fault_def)
qed

theorem ingest_all_or_nothing_witness:
  "decode_table [(''[e1]'', [proc_event ''t1'' ''e1'' [''ls'']])] (Request_Body (request [] [] ''[e1]''))
     = Inr [proc_event ''t1'' ''e1'' [''ls'']] \<and>
   (case IngestEvents (decode_table [(''[e1]'', [proc_event ''t1'' ''e1'' [''ls'']])]) 5
           (new_handler (empty_DB\<lparr>DB_faults := [True]\<rparr>)) (request [] [] ''[e1]'') of
      (h', c', scheduled) \<Rightarrow>
        Writer c' = Some \<lparr>Response_Status = 500,
                          Response_Body = ErrorBody ''Failed to process events''\<rparr> \<and>
        DB_events (db h') = [] \<and> scheduled = None) \<and>
   (case IngestEvents (decode_table [(''[e1]'', [proc_event ''t1'' ''e1'' [''ls'']])]) 5
           (new_handler empty_DB) (request [] [] ''[e1]'') of
      (h', c', scheduled) \<Rightarrow>
        Writer c' = Some \<lparr>Response_Status = 200, Response_Body = IngestBody ''ok'' 1\<rparr> \<and>
        DB_events (db h') =
          [(proc_event ''t1'' ''e1'' [''ls''])
             \<lparr>Event_ID := 1, Event_CreatedAt := 5, Event_UpdatedAt := 5\<rparr>])"
proof -
  have d: "decode_table [(''[e1]'', [proc_event ''t1'' ''e1'' [''ls'']])]
             (Request_Body (request [] [] ''[e1]'')) = Inr [proc_event ''t1'' ''e1'' [''ls'']]"
    by (simp add: decode_table_def request_def)
  show ?thesis
    using d
      ingest_all_or_nothing
        [where ShouldBindJSON = "decode_table [(''[e1]'', [proc_event ''t1'' ''e1'' [''ls'']])]"
           and c = "request [] [] ''[e1]''" and now = 5
           and h = "new_handler (empty_DB\<lparr>DB_faults := [True]\<rparr>)", OF d]
      ingest_all_or_nothing
        [where ShouldBindJSON = "decode_table [(''[e1]'', [proc_event ''t1'' ''e1'' [''ls'']])]"
           and c = "request [] [] ''[e1]''" and now = 5 and h = "new_handler empty_DB", OF d]
    by (simp add: ingest_defs eval_defs)
qed

text \<open>
  Claim C5, as amended. For a decoded batch of N events, when the batch insert succeeds,
  \<open>IngestEvents\<close> answers 200 with status "ok" and count N, appends exactly N rows (the
  events of the batch, stamped) to the events table and hands these rows to detection. The
  stand-alone handler of \<open>main.go\<close> answers a decoded batch of N events with the same 200
  receipt.
\<close>

theorem ingest_receipt_and_rows:
  assumes "ShouldBindJSON (Request_Body c) = Inr events" and "\<not> next_fault (db h)"
    and "decode (Request_Body c') = Inr batch"
  shows "(case IngestEvents ShouldBindJSON now h c of
            (h', c', scheduled) \<Rightarrow>
              Writer c' = Some \<lparr>Response_Status = 200,
                                Response_Body = IngestBody ''ok'' (length events)\<rparr> \<and>
              (\<exists>rows. DB_events (db h') = DB_events (db h) @ rows \<and>
                 length rows = length events \<and>
                 map (\<lambda>e. e\<lparr>Event_ID := 0\<rparr>) rows =
                   map (\<lambda>e. e\<lparr>Event_ID := 0, Event_CreatedAt := now, Event_UpdatedAt := now\<rparr>)
                     events \<and>
                 scheduled = Some rows)) \<and>
         Writer (snd (main_post_events decode printed c')) =
           Some \<lparr>Response_Status = 200, Response_Body = IngestBody ''ok'' (length batch)\<rparr>"
proof -
  have "Writer (snd (main_post_events decode printed c')) =
           Some \<lparr>Response_Status = 200, Response_Body = IngestBody ''ok'' (length batch)\<rparr>"
    using assms(3) by (simp add: main_post_events_def JSON_def)
  then show ?thesis
    by (simp add: IngestEvents_stored [where ShouldBindJSON = ShouldBindJSON and c = c, OF assms(1,2) refl]
          JSON_def stamped_rows length_assign_event_ids consume_fault_def)
qed

theorem ingest_receipt_and_rows_witness:
  "decode_table [(''[e1]'', [proc_event ''t1'' ''e1'' [''ls'']])] (Request_Body (request [] [] ''[e1]''))
     = Inr [proc_event ''t1'' ''e1'' [''ls'']] \<and>
   \<not> next_fault (db (new_handler empty_DB)) \<and>
   (case IngestEvents (decode_table [(''[e1]'', [proc_event ''t1'' ''e1'' [''ls'']])]) 5
           (new_handler empty_DB) (request [] [] ''[e1]'') of
      (h', c', scheduled) \<Rightarrow>
        Writer c' = Some \<lparr>Response_Status = 200, Response_Body = IngestBody ''ok'' 1\<rparr> \<and>
        DB_events (db h') =
          [(proc_event ''t1'' ''e1'' [''ls''])
             \<lparr>Event_ID := 1, Event_CreatedAt := 5, Event_UpdatedAt := 5\<rparr>]) \<and>
   Writer (snd (main_post_events (decode_table [(''[e1]'', [proc_event ''t1'' ''e1'' [''ls'']])]) []
             (request [] [] ''[e1]''))) =
     Some \<lparr>Response_Status = 200, Response_Body = IngestBody ''ok'' 1\<rparr>"
proof -
  have d: "decode_table [(''[e1]'', [proc_event ''t1'' ''e1'' [''ls'']])]
             (Request_Body (request [] [] ''[e1]'')) = Inr [proc_event ''t1'' ''e1'' [''ls'']]"
    by (simp add: decode_table_def request_def)
  have f: "\<not> next_fault (db (new_handler empty_DB))"
    by (simp add: next_fault_def new_handler_def empty_DB_def)
  show ?thesis
    using d f ingest_receipt_and_rows
        [where ShouldBindJSON = "decode_table [(''[e1]'', [proc_event ''t1'' ''e1'' [''ls'']])]"
           and c = "request [] [] ''[e1]''" and now = 5 and h = "new_handler empty_DB"
           and decode = "decode_table [(''[e1]'', [proc_event ''t1'' ''e1'' [''ls'']])]"
           and c' = "request [] [] ''[e1]''" and printed = "[]", OF d f d]
    by (simp add: ingest_defs eval_defs)
qed

text \<open>
  Claim C5 as stated fails: the handler of \<open>main.go\<close> acknowledges a batch of one event
  with count 1 while its GET handler answers with an empty list whatever was posted, and
  \<open>IngestEvents\<close> answers a well-formed batch with 500 and stores nothing when the insert
  fails.
\<close>

theorem ingest_receipt_counterexample:
  "Writer (snd (main_post_events (decode_table [(''[e1]'', [proc_event ''t1'' ''e1'' [''ls'']])]) []
             (request [] [] ''[e1]''))) =
     Some \<lparr>Response_Status = 200, Response_Body = IngestBody ''ok'' 1\<rparr> \<and>
   Writer (main_get_events (request [] [] [])) =
     Some \<lparr>Response_Status = 200, Response_Body = EmptyListBody ''events''\<rparr> \<and>
   Writer (fst (snd (IngestEvents (decode_table [(''[e1]'', [proc_event ''t1'' ''e1'' [''ls'']])]) 0
             (new_handler (empty_DB\<lparr>DB_faults := [True]\<rparr>)) (request [] [] ''[e1]'')))) =
     Some \<lparr>Response_Status = 500, Response_Body = ErrorBody ''Failed to process events''\<rparr> \<and>
   DB_events (db (fst (IngestEvents (decode_table [(''[e1]'', [proc_event ''t1'' ''e1'' [''ls'']])]) 0
             (new_handler (empty_DB\<lparr>DB_faults := [True]\<rparr>)) (request [] [] ''[e1]'')))) = []"
  by (simp add: ingest_defs eval_defs)

section \<open>Properties of the middleware\<close>

lemma HasPrefix_drop:
  assumes "HasPrefix s p" and "p \<noteq> []"
  shows "drop (length p) s \<noteq> s"
proof
  assume "drop (length p) s = s"
  then have "length (drop (length p) s) = length s" by simp
  then have "length s - length p = length s" by simp
  moreover have "length p \<le> length s"
    using assms(1) by (simp add: HasPrefix_prefix prefix_length_le)
  moreover have "0 < length p"
    using assms(2) by simp
  ultimately show False by arith
qed

lemma TrimPrefix_same: "p \<noteq> [] \<Longrightarrow> TrimPrefix s p = s \<longleftrightarrow> \<not> HasPrefix s p"
  by (auto simp: TrimPrefix_def dest: HasPrefix_drop)

lemma TrimPrefix_Bearer:
  "HasPrefix s ''Bearer '' \<Longrightarrow> TrimPrefix s ''Bearer '' = drop (length ''Bearer '') s"
  by (simp add: TrimPrefix_def)

lemmas auth_defs = AuthMiddleware_def GetHeader_def TrimPrefix_def JSON_def Abort_def Set_key_def
  request_def two_tenant_tokens_def verify_table_def Let_def

text \<open>
  Claim C7, as amended. \<open>AuthMiddleware\<close> aborts the request with status 401 and attaches
  no security context when the Authorization header is absent (message "Authorization header
  required"), when it does not start with "Bearer " (message "Bearer token required"), and
  when the token library rejects the token or reports it as not valid (message "Invalid
  token", the same for an invalid signature and for an expired token).
\<close>

theorem auth_failures_unauthorized:
  "(GetHeader c ''Authorization'' = [] \<longrightarrow>
      AuthMiddleware ParseWithClaims jwtSecret c =
        Abort (JSON 401 (ErrorBody ''Authorization header required'') c)) \<and>
   (GetHeader c ''Authorization'' \<noteq> [] \<and> \<not> HasPrefix (GetHeader c ''Authorization'') ''Bearer '' \<longrightarrow>
      AuthMiddleware ParseWithClaims jwtSecret c =
        Abort (JSON 401 (ErrorBody ''Bearer token required'') c)) \<and>
   (HasPrefix (GetHeader c ''Authorization'') ''Bearer '' \<and>
    (ParseWithClaims (drop (length ''Bearer '') (GetHeader c ''Authorization'')) jwtSecret = ParseError e \<or>
     ParseWithClaims (drop (length ''Bearer '') (GetHeader c ''Authorization'')) jwtSecret = Token False claims) \<longrightarrow>
      AuthMiddleware ParseWithClaims jwtSecret c =
        Abort (JSON 401 (ErrorBody ''Invalid token'') c))"
proof (intro conjI impI)
  assume "GetHeader c ''Authorization'' = []"
  then show "AuthMiddleware ParseWithClaims jwtSecret c =
        Abort (JSON 401 (ErrorBody ''Authorization header required'') c)"
    by (simp add: AuthMiddleware_def)
next
  assume a: "GetHeader c ''Authorization'' \<noteq> [] \<and>
    \<not> HasPrefix (GetHeader c ''Authorization'') ''Bearer ''"
  then have "TrimPrefix (GetHeader c ''Authorization'') ''Bearer '' = GetHeader c ''Authorization''"
    by (simp add: TrimPrefix_def)
  with a show "AuthMiddleware ParseWithClaims jwtSecret c =
        Abort (JSON 401 (ErrorBody ''Bearer token required'') c)"
    by (simp add: AuthMiddleware_def Let_def)
next
  assume a: "HasPrefix (GetHeader c ''Authorization'') ''Bearer '' \<and>
    (ParseWithClaims (drop (length ''Bearer '') (GetHeader c ''Authorization'')) jwtSecret = ParseError e \<or>
     ParseWithClaims (drop (length ''Bearer '') (GetHeader c ''Authorization'')) jwtSecret = Token False claims)"
  then have p: "HasPrefix (GetHeader c ''Authorization'') ''Bearer ''" by simp
  then have ne: "GetHeader c ''Authorization'' \<noteq> []" by auto
  have t: "TrimPrefix (GetHeader c ''Authorization'') ''Bearer '' = drop (length ''Bearer '') (GetHeader c ''Authorization'')"
    using p by (rule TrimPrefix_Bearer)
  have d: "drop (length ''Bearer '') (GetHeader c ''Authorization'') \<noteq> GetHeader c ''Authorization''"
    using HasPrefix_drop [OF p] by simp
  from a have "ParseWithClaims (drop (length ''Bearer '') (GetHeader c ''Authorization'')) jwtSecret = ParseError e \<or>
     ParseWithClaims (drop (length ''Bearer '') (GetHeader c ''Authorization'')) jwtSecret = Token False claims"
    by simp
  then show "AuthMiddleware ParseWithClaims jwtSecret c =
        Abort (JSON 401 (ErrorBody ''Invalid token'') c)"
    using ne t d by (auto simp: AuthMiddleware_def Let_def)
qed

theorem auth_failures_unauthorized_witness:
  "(GetHeader (request [] [] []) ''Authorization'' = [] \<and>
    AuthMiddleware two_tenant_tokens ''secret'' (request [] [] []) =
      Abort (JSON 401 (ErrorBody ''Authorization header required'') (request [] [] []))) \<and>
   (GetHeader (request [(''Authorization'', ''Basic dXNlcg=='')] [] []) ''Authorization'' \<noteq> [] \<and>
    \<not> HasPrefix (GetHeader (request [(''Authorization'', ''Basic dXNlcg=='')] [] []) ''Authorization'')
        ''Bearer '' \<and>
    AuthMiddleware two_tenant_tokens ''secret''
        (request [(''Authorization'', ''Basic dXNlcg=='')] [] []) =
      Abort (JSON 401 (ErrorBody ''Bearer token required'')
        (request [(''Authorization'', ''Basic dXNlcg=='')] [] []))) \<and>
   (HasPrefix (GetHeader (request [(''Authorization'', ''Bearer forged'')] [] []) ''Authorization'')
      ''Bearer '' \<and>
    two_tenant_tokens
      (drop (length ''Bearer '') (GetHeader (request [(''Authorization'', ''Bearer forged'')] [] []) ''Authorization''))
      ''secret'' = ParseError ErrTokenSignatureInvalid \<and>
    AuthMiddleware two_tenant_tokens ''secret''
        (request [(''Authorization'', ''Bearer forged'')] [] []) =
      Abort (JSON 401 (ErrorBody ''Invalid token'')
        (request [(''Authorization'', ''Bearer forged'')] [] []))) \<and>
   (HasPrefix (GetHeader (request [(''Authorization'', ''Bearer stale'')] [] []) ''Authorization'')
      ''Bearer '' \<and>
    two_tenant_tokens
      (drop (length ''Bearer '') (GetHeader (request [(''Authorization'', ''Bearer stale'')] [] []) ''Authorization''))
      ''secret'' = ParseError ErrTokenExpired \<and>
    AuthMiddleware two_tenant_tokens ''secret''
        (request [(''Authorization'', ''Bearer stale'')] [] []) =
      Abort (JSON 401 (ErrorBody ''Invalid token'')
        (request [(''Authorization'', ''Bearer stale'')] [] [])))"
proof -
  let ?c1 = "request [] [] []"
  let ?c2 = "request [(''Authorization'', ''Basic dXNlcg=='')] [] []"
  let ?c3 = "request [(''Authorization'', ''Bearer forged'')] [] []"
  let ?c4 = "request [(''Authorization'', ''Bearer stale'')] [] []"
  have h1: "GetHeader ?c1 ''Authorization'' = []"
    by (simp add: GetHeader_def request_def)
  have h2: "GetHeader ?c2 ''Authorization'' \<noteq> [] \<and>
            \<not> HasPrefix (GetHeader ?c2 ''Authorization'') ''Bearer ''"
    by (simp add: GetHeader_def request_def)
  have h3: "HasPrefix (GetHeader ?c3 ''Authorization'') ''Bearer ''"
    by (simp add: GetHeader_def request_def)
  have p3: "two_tenant_tokens (drop (length ''Bearer '') (GetHeader ?c3 ''Authorization'')) ''secret'' =
              ParseError ErrTokenSignatureInvalid"
    by (simp add: GetHeader_def request_def two_tenant_tokens_def verify_table_def)
  have h4: "HasPrefix (GetHeader ?c4 ''Authorization'') ''Bearer ''"
    by (simp add: GetHeader_def request_def)
  have p4: "two_tenant_tokens (drop (length ''Bearer '') (GetHeader ?c4 ''Authorization'')) ''secret'' =
              ParseError ErrTokenExpired"
    by (simp add: GetHeader_def request_def two_tenant_tokens_def verify_table_def)
  note t1 = auth_failures_unauthorized
      [where c = ?c1 and ParseWithClaims = two_tenant_tokens and jwtSecret = "''secret''"]
  note t2 = auth_failures_unauthorized
      [where c = ?c2 and ParseWithClaims = two_tenant_tokens and jwtSecret = "''secret''"]
  note t3 = auth_failures_unauthorized
      [where c = ?c3 and ParseWithClaims = two_tenant_tokens and jwtSecret = "''secret''"
         and e = ErrTokenSignatureInvalid]
  note t4 = auth_failures_unauthorized
      [where c = ?c4 and ParseWithClaims = two_tenant_tokens and jwtSecret = "''secret''"
         and e = ErrTokenExpired]
  from t1 h1 have r1: "AuthMiddleware two_tenant_tokens ''secret'' ?c1 =
      Abort (JSON 401 (ErrorBody ''Authorization header required'') ?c1)" by blast
  from t2 h2 have r2: "AuthMiddleware two_tenant_tokens ''secret'' ?c2 =
      Abort (JSON 401 (ErrorBody ''Bearer token required'') ?c2)" by blast
  from t3 h3 p3 have r3: "AuthMiddleware two_tenant_tokens ''secret'' ?c3 =
      Abort (JSON 401 (ErrorBody ''Invalid token'') ?c3)" by blast
  from t4 h4 p4 have r4: "AuthMiddleware two_tenant_tokens ''secret'' ?c4 =
      Abort (JSON 401 (ErrorBody ''Invalid token'') ?c4)" by blast
  from h1 h2 h3 h4 p3 p4 r1 r2 r3 r4 show ?thesis by blast
qed

text \<open>
  Claim C7 as stated fails: the 401 responses for an absent header, for a header that is not
  a bearer credential and for a rejected token carry three different messages, so the caller
  can tell these cases apart.
\<close>

theorem auth_failures_counterexample:
  "Writer (AuthMiddleware two_tenant_tokens ''secret'' (request [] [] [])) =
     Some \<lparr>Response_Status = 401, Response_Body = ErrorBody ''Authorization header required''\<rparr> \<and>
   Writer (AuthMiddleware two_tenant_tokens ''secret''
             (request [(''Authorization'', ''Basic dXNlcg=='')] [] [])) =
     Some \<lparr>Response_Status = 401, Response_Body = ErrorBody ''Bearer token required''\<rparr> \<and>
   Writer (AuthMiddleware two_tenant_tokens ''secret''
             (request [(''Authorization'', ''Bearer forged'')] [] [])) =
     Some \<lparr>Response_Status = 401, Response_Body = ErrorBody ''Invalid token''\<rparr> \<and>
   Writer (AuthMiddleware two_tenant_tokens ''secret'' (request [] [] [])) \<noteq>
     Writer (AuthMiddleware two_tenant_tokens ''secret''
               (request [(''Authorization'', ''Basic dXNlcg=='')] [] []))"
  by (simp add: auth_defs)

section \<open>Properties of the query handlers\<close>

lemmas route_defs = use_def AuthMiddleware_def TenantMiddleware_def GetEvents_def GetAlerts_def
  GetHeader_def Query_def DefaultQuery_def JSON_def Abort_def Set_key_def TrimPrefix_def
  request_def two_tenant_store_def two_tenant_tokens_def verify_table_def Find_events_def
  Find_alerts_def paginate_def Atoi_def is_digit_def go_int_def

text \<open>
  The query handlers read the request's query parameters only: the keys that the middleware
  attaches to the context (the security context) do not change the response.
\<close>

lemma Query_Keys: "Query (c\<lparr>Keys := k\<rparr>) key = Query c key"
  by (simp add: Query_def)

lemma DefaultQuery_Keys: "DefaultQuery (c\<lparr>Keys := k\<rparr>) key d = DefaultQuery c key d"
  by (simp add: DefaultQuery_def)

lemma JSON_Keys: "JSON code obj (c\<lparr>Keys := k\<rparr>) = (JSON code obj c)\<lparr>Keys := k\<rparr>"
  by (simp add: JSON_def)

lemma if_pair_Keys:
  "(if b then (x, y\<lparr>Keys := k\<rparr>) else (x', y'\<lparr>Keys := k\<rparr>)) =
     (fst (if b then (x, y) else (x', y')), (snd (if b then (x, y) else (x', y')))\<lparr>Keys := k\<rparr>)"
  by simp

lemma GetEvents_ignores_keys:
  "GetEvents parseRFC3339 h (c\<lparr>Keys := k\<rparr>) =
     (fst (GetEvents parseRFC3339 h c), (snd (GetEvents parseRFC3339 h c))\<lparr>Keys := k\<rparr>)"
  by (simp add: GetEvents_def Let_def case_prod_unfold JSON_Keys Query_Keys DefaultQuery_Keys
        if_pair_Keys split del: if_split cong: if_cong)

lemma GetAlerts_ignores_keys:
  "GetAlerts h (c\<lparr>Keys := k\<rparr>) = (fst (GetAlerts h c), (snd (GetAlerts h c))\<lparr>Keys := k\<rparr>)"
  by (simp add: GetAlerts_def Let_def case_prod_unfold JSON_Keys Query_Keys DefaultQuery_Keys
        if_pair_Keys split del: if_split cong: if_cong)

text \<open>
  Claim C1. The store holds one event and one alert of each of the tenants tenant1 and
  tenant2. A caller whose valid token carries tenant1 passes \<open>AuthMiddleware\<close> and
  \<open>TenantMiddleware\<close> (the context holds tenant id tenant1) and asks for the events with
  the query parameter tenant_id=tenant2: the response is 200 with the event of tenant2.
  Without the parameter, the caller of tenant1 and the caller of tenant2 both get the events
  of both tenants, and the caller of tenant1 gets the alerts of both tenants.
\<close>

theorem query_ignores_security_context:
  "Keys (snd (use (AuthMiddleware two_tenant_tokens ''secret'')
                (use TenantMiddleware (GetEvents Map.empty)) (new_handler two_tenant_store)
                (request [(''Authorization'', ''Bearer token1'')] [(''tenant_id'', ''tenant2'')] [])))
      ''tenant_id'' = Some ''tenant1'' \<and>
   Writer (snd (use (AuthMiddleware two_tenant_tokens ''secret'')
                  (use TenantMiddleware (GetEvents Map.empty)) (new_handler two_tenant_store)
                  (request [(''Authorization'', ''Bearer token1'')] [(''tenant_id'', ''tenant2'')] []))) =
     Some \<lparr>Response_Status = 200,
           Response_Body =
             EventsBody [(proc_event ''tenant2'' ''e2'' [''ps''])\<lparr>Event_ID := 2\<rparr>] 1 50\<rparr> \<and>
   Writer (snd (use (AuthMiddleware two_tenant_tokens ''secret'')
                  (use TenantMiddleware (GetEvents Map.empty)) (new_handler two_tenant_store)
                  (request [(''Authorization'', ''Bearer token1'')] [] []))) =
     Some \<lparr>Response_Status = 200,
           Response_Body = EventsBody (DB_events two_tenant_store) 1 50\<rparr> \<and>
   Writer (snd (use (AuthMiddleware two_tenant_tokens ''secret'')
                  (use TenantMiddleware (GetEvents Map.empty)) (new_handler two_tenant_store)
                  (request [(''Authorization'', ''Bearer token2'')] [] []))) =
     Some \<lparr>Response_Status = 200,
           Response_Body = EventsBody (DB_events two_tenant_store) 1 50\<rparr> \<and>
   Writer (snd (use (AuthMiddleware two_tenant_tokens ''secret'')
                  (use TenantMiddleware GetAlerts) (new_handler two_tenant_store)
                  (request [(''Authorization'', ''Bearer token1'')] [] []))) =
     Some \<lparr>Response_Status = 200,
           Response_Body = AlertsBody (rev (DB_alerts two_tenant_store)) 1 50\<rparr> \<and>
   map Event_TenantID (DB_events two_tenant_store) = [''tenant1'', ''tenant2''] \<and>
   map Alert_TenantID (DB_alerts two_tenant_store) = [''tenant1'', ''tenant2'']"
  by (simp add: route_defs eval_defs)

end
